theory Spec2Isabelle
  imports Complex_Main "HOL-Library.Sublist" "HOL-Library.Multiset"
begin

section \<open>Python strings\<close>

text \<open>
  Error messages and query texts are \<open>string\<close>s. The substring test
  \<^verbatim>\<open>sub in s\<close> is the contiguous-sublist relation; \<^verbatim>\<open>s.lower()\<close> lowers the
  ASCII letters A..Z and leaves every other character as it is.
\<close>

definition py_in :: "string \<Rightarrow> string \<Rightarrow> bool" where
  "py_in sub s = sublist sub s"

definition lower_char :: "char \<Rightarrow> char" where
  "lower_char c =
     (let n = (of_char c :: nat)
      in if 65 \<le> n \<and> n \<le> 90 then char_of (n + 32) else c)"

definition lower :: "string \<Rightarrow> string" where
  "lower s = map lower_char s"

section \<open>services/ai\_optimizer\_service.py\<close>

subsection \<open>AIErrorHandler.handle\_ai\_error\<close>

record error_info =
  error_type :: string
  user_message :: string
  should_retry :: bool
  original_error :: string

text \<open>
  The argument \<open>error_message\<close> is \<^verbatim>\<open>str(error)\<close>; \<open>retry_count\<close> is the
  number of retries remaining. The branches are tested in the order of the
  source's if/elif chain.
\<close>

definition handle_ai_error :: "string \<Rightarrow> int \<Rightarrow> error_info" where
  "handle_ai_error error_message retry_count =
     (if py_in ''rate limit'' (lower error_message) \<or> py_in ''quota'' (lower error_message) then
        \<lparr>error_type = ''rate_limit'',
         user_message = ''API rate limit exceeded. Retrying with exponential backoff...'',
         should_retry = (retry_count > 0),
         original_error = error_message\<rparr>
      else if py_in ''api key'' (lower error_message) \<or> py_in ''authentication'' (lower error_message) then
        \<lparr>error_type = ''authentication'',
         user_message = ''Invalid API key or authentication failed'',
         should_retry = False,
         original_error = error_message\<rparr>
      else if py_in ''timeout'' (lower error_message) then
        \<lparr>error_type = ''timeout'',
         user_message = ''Request timed out. Retrying...'',
         should_retry = (retry_count > 0),
         original_error = error_message\<rparr>
      else if py_in ''json'' (lower error_message) \<or> py_in ''parse'' (lower error_message) then
        \<lparr>error_type = ''invalid_response'',
         user_message = ''Failed to parse AI response. The response format was invalid.'',
         should_retry = False,
         original_error = error_message\<rparr>
      else
        \<lparr>error_type = ''unknown'',
         user_message = error_message,
         should_retry = False,
         original_error = error_message\<rparr>)"

subsection \<open>AIOptimizerService.\_call\_ai\_with\_retry\<close>

text \<open>
  The configured client (Gemini or OpenAI) is a parameter: \<open>provider prompt k\<close>
  is what the \<open>k\<close>-th call of the run (counted from 0) does with the prompt,
  \<open>Inr text\<close> for a response and \<open>Inl msg\<close> for an exception whose \<^verbatim>\<open>str\<close> is
  \<open>msg\<close>. The result records what the caller observes: the returned text or the
  message of the raised exception, the arguments of \<^verbatim>\<open>time.sleep\<close> in order, and
  the number of provider calls made.
\<close>

record call_result =
  outcome :: "string + string"
  sleeps :: "int list"
  calls :: nat

function call_ai_loop ::
  "(string \<Rightarrow> nat \<Rightarrow> string + string) \<Rightarrow> string \<Rightarrow> int \<Rightarrow> nat \<Rightarrow> int list \<Rightarrow> call_result"
where
  "call_ai_loop provider prompt max_retries attempt waits =
     (if int attempt < max_retries then
        (case provider prompt attempt of
           Inr text \<Rightarrow> \<lparr>outcome = Inr text, sleeps = waits, calls = attempt + 1\<rparr>
         | Inl e \<Rightarrow>
             (let info = handle_ai_error e (max_retries - int attempt - 1)
              in if \<not> should_retry info \<or> int attempt = max_retries - 1 then
                   \<lparr>outcome = Inl (user_message info @ '': '' @ original_error info),
                    sleeps = waits, calls = attempt + 1\<rparr>
                 else
                   call_ai_loop provider prompt max_retries (attempt + 1) (waits @ [2 ^ attempt])))
      else
        \<lparr>outcome = Inl ''Failed to get AI response after all retries'',
         sleeps = waits, calls = attempt\<rparr>)"
  by pat_completeness auto
termination
  by (relation "measure (\<lambda>(provider, prompt, max_retries, attempt, waits). nat (max_retries - int attempt))") auto

definition call_ai_with_retry ::
  "(string \<Rightarrow> nat \<Rightarrow> string + string) \<Rightarrow> string \<Rightarrow> int \<Rightarrow> call_result" where
  "call_ai_with_retry provider prompt max_retries = call_ai_loop provider prompt max_retries 0 []"

section \<open>config.py\<close>

text \<open>Python floats are modelled as exact rationals throughout.\<close>

definition BIGQUERY_COST_PER_TB :: rat where
  "BIGQUERY_COST_PER_TB = 50"

definition GCS_STANDARD_COST_PER_GB :: rat where
  "GCS_STANDARD_COST_PER_GB = 20 / 1000"

definition GCS_NEARLINE_COST_PER_GB :: rat where
  "GCS_NEARLINE_COST_PER_GB = 10 / 1000"

definition GCS_COLDLINE_COST_PER_GB :: rat where
  "GCS_COLDLINE_COST_PER_GB = 4 / 1000"

definition GCS_ARCHIVE_COST_PER_GB :: rat where
  "GCS_ARCHIVE_COST_PER_GB = 12 / 10000"

section \<open>services/bigquery\_service.py\<close>

text \<open>
  The dictionary returned by \<open>dry_run_query\<close>. The BigQuery client is a
  parameter: \<open>client_query query\<close> is \<open>Inr n\<close> when the dry-run job reports
  \<open>n\<close> bytes processed and \<open>Inl msg\<close> when the call raises an exception whose
  \<^verbatim>\<open>str\<close> is \<open>msg\<close>; a job that carries no byte count makes the division
  raise inside the same \<^verbatim>\<open>try\<close>, which is the \<open>Inl\<close> case too. The one-hour cache
  in front of the function only replays an earlier return value for the same
  query text and is left out.
\<close>

record dry_run_result =
  total_bytes_processed :: int
  estimated_cost_usd :: rat
  success :: bool
  error :: "string option"

definition dry_run_query :: "(string \<Rightarrow> string + int) \<Rightarrow> string \<Rightarrow> dry_run_result" where
  "dry_run_query client_query query =
     (case client_query query of
        Inr bytes_processed \<Rightarrow>
          \<lparr>total_bytes_processed = bytes_processed,
           estimated_cost_usd = (of_int bytes_processed / (1024 ^ 4)) * 5,
           success = True,
           error = None\<rparr>
      | Inl e \<Rightarrow>
          \<lparr>total_bytes_processed = 0,
           estimated_cost_usd = 0,
           success = False,
           error = Some e\<rparr>)"

text \<open>A client whose every dry run reports the same byte count, and one that always raises.\<close>

definition fixed_bytes_client :: "int \<Rightarrow> string \<Rightarrow> string + int" where
  "fixed_bytes_client n query = Inr n"

definition raising_client :: "string \<Rightarrow> string \<Rightarrow> string + int" where
  "raising_client msg query = Inl msg"

section \<open>modules/sql\_optimization.py\<close>

subsection \<open>\_process\_query\_pair\_parallel\<close>

text \<open>
  The function returns a pair of a flag and a dictionary, and the flag fixes
  the dictionary's keys: \<open>Failed query_id error\<close> is
  \<^verbatim>\<open>(False, {'query_id': .., 'error': ..})\<close> and \<open>Succeeded query_id before after\<close> is
  \<^verbatim>\<open>(True, {'query_id': .., 'before_result': .., 'after_result': ..})\<close>.
\<close>

datatype pair_outcome =
  Failed string string
| Succeeded string dry_run_result dry_run_result

text \<open>The test written out three times in the source.\<close>

definition auth_marker :: "string \<Rightarrow> bool" where
  "auth_marker msg =
     (py_in ''401'' msg \<or> py_in ''UNAUTHENTICATED'' msg \<or> py_in ''authentication'' (lower msg))"

text \<open>The \<^verbatim>\<open>except Exception as e\<close> branch, on \<^verbatim>\<open>str(e)\<close>.\<close>

definition on_exception :: "string \<Rightarrow> string \<Rightarrow> pair_outcome" where
  "on_exception query_id error_str =
     (if auth_marker error_str then Failed query_id ''Authentication error - check credentials''
      else Failed query_id (take 150 error_str))"

text \<open>
  The text of the TypeError that CPython (up to 3.13) raises for
  \<^verbatim>\<open>'401' in None\<close>, reached when a failure record carries no error text.
\<close>

definition none_not_iterable :: string where
  "none_not_iterable =
     ''argument of type '' @ [CHR 0x27] @ ''NoneType'' @ [CHR 0x27] @ '' is not iterable''"

text \<open>
  The part shared by the two dry runs: \<open>label\<close> is \<open>''Original''\<close> or
  \<open>''Optimized''\<close>, \<open>res\<close> a result whose \<open>success\<close> is false.
\<close>

definition on_failure :: "string \<Rightarrow> string \<Rightarrow> dry_run_result \<Rightarrow> pair_outcome" where
  "on_failure query_id label res =
     (case error res of
        None \<Rightarrow> on_exception query_id none_not_iterable
      | Some error_msg \<Rightarrow>
          if auth_marker error_msg then Failed query_id ''Authentication error - check credentials''
          else Failed query_id (label @ '' query failed: '' @ take 150 error_msg))"

text \<open>
  \<open>bigquery_service query\<close> is what \<^verbatim>\<open>bigquery_service.dry_run_query(query)\<close> does:
  \<open>Inr\<close> a result dictionary, \<open>Inl\<close> the text of a raised exception. The second
  component of the result lists the queries that were dry-run, in order.
\<close>

definition process_query_pair_parallel ::
  "string \<Rightarrow> string \<Rightarrow> string \<Rightarrow> (string \<Rightarrow> string + dry_run_result) \<Rightarrow> pair_outcome \<times> string list"
where
  "process_query_pair_parallel query_id original_query optimized_query bigquery_service =
     (case bigquery_service original_query of
        Inl e \<Rightarrow> (on_exception query_id e, [original_query])
      | Inr before_result \<Rightarrow>
          if \<not> success before_result then
            (on_failure query_id ''Original'' before_result, [original_query])
          else
            (case bigquery_service optimized_query of
               Inl e \<Rightarrow> (on_exception query_id e, [original_query, optimized_query])
             | Inr after_result \<Rightarrow>
                 if \<not> success after_result then
                   (on_failure query_id ''Optimized'' after_result, [original_query, optimized_query])
                 else
                   (Succeeded query_id before_result after_result,
                    [original_query, optimized_query])))"

subsection \<open>\_run\_sql\_optimization\_workflow, steps 3 and 4\<close>

text \<open>The entries of \<open>optimized_queries\<close>.\<close>

record query_data =
  q_query_id :: string
  q_original_query :: string
  q_optimized_query :: string
  q_optimizations_applied :: "string list"

text \<open>\<open>SQLOptimizationResult\<close>, without its wall-clock \<open>timestamp\<close>.\<close>

record sql_optimization_result =
  query_id :: string
  original_query :: string
  optimized_query :: string
  bytes_before :: int
  bytes_after :: int
  cost_before_usd :: rat
  cost_after_usd :: rat
  savings_percent :: rat
  optimizations_applied :: "string list"

definition sql_result :: "query_data \<Rightarrow> dry_run_result \<Rightarrow> dry_run_result \<Rightarrow> sql_optimization_result" where
  "sql_result q before_result after_result =
     (let bytes_before = total_bytes_processed before_result;
          bytes_after = total_bytes_processed after_result;
          cost_before = estimated_cost_usd before_result;
          cost_after = estimated_cost_usd after_result;
          savings_percent =
            (if bytes_before > 0
             then (of_int (bytes_before - bytes_after) / of_int bytes_before) * 100
             else 0)
      in \<lparr>query_id = q_query_id q,
          original_query = q_original_query q,
          optimized_query = q_optimized_query q,
          bytes_before = bytes_before,
          bytes_after = bytes_after,
          cost_before_usd = cost_before,
          cost_after_usd = cost_after,
          savings_percent = savings_percent,
          optimizations_applied = q_optimizations_applied q\<rparr>)"

text \<open>
  The pool runs one task per entry; the main thread handles the tasks in the
  order in which they complete. \<open>drain\<close> takes the entries in that order and
  returns the \<open>results\<close> list and the warnings shown (query id and error), each
  in the order of appending.
\<close>

fun drain ::
  "(string \<Rightarrow> string + dry_run_result) \<Rightarrow> query_data list \<Rightarrow>
   sql_optimization_result list \<Rightarrow> (string \<times> string) list \<Rightarrow>
   sql_optimization_result list \<times> (string \<times> string) list"
where
  "drain bigquery_service [] results warnings = (results, warnings)"
| "drain bigquery_service (q # completed) results warnings =
     (case fst (process_query_pair_parallel (q_query_id q) (q_original_query q)
                  (q_optimized_query q) bigquery_service) of
        Succeeded qid before_result after_result \<Rightarrow>
          drain bigquery_service completed
            (results @ [sql_result q before_result after_result]) warnings
      | Failed qid err \<Rightarrow>
          drain bigquery_service completed results (warnings @ [(qid, err)]))"

definition run_dry_runs ::
  "(string \<Rightarrow> string + dry_run_result) \<Rightarrow> query_data list \<Rightarrow>
   sql_optimization_result list \<times> (string \<times> string) list" where
  "run_dry_runs bigquery_service completed = drain bigquery_service completed [] []"

section \<open>modules/ml\_autoscaling.py\<close>

text \<open>
  The job dictionaries of the simulator, the suggestion dictionaries returned
  by \<open>optimize_ml_jobs\<close> (with the value types its docstring gives) and the
  \<open>MLOptimizationResult\<close> dataclass. Of a configuration dictionary only the
  key \<open>accelerator_type\<close> is read, through \<^verbatim>\<open>.get(.., 'Unknown')\<close>.
\<close>

record ml_job =
  j_job_name :: string
  j_gpu_hours :: rat
  j_cpu_hours :: rat
  j_peak_nodes :: int
  j_accelerator_type :: string
  j_training_duration_hours :: rat
  j_estimated_cost :: rat

record ml_config =
  c_accelerator_type :: "string option"

record ml_suggestion =
  m_job_name :: string
  m_current_config :: ml_config
  m_suggested_config :: ml_config
  m_optimization_type :: string
  m_estimated_savings_percent :: rat

fun join :: "string \<Rightarrow> string list \<Rightarrow> string" where
  "join sep [] = []"
| "join sep [x] = x"
| "join sep (x # y # ys) = x @ sep @ join sep (y # ys)"

definition get_accelerator_type :: "ml_config \<Rightarrow> string" where
  "get_accelerator_type config =
     (case c_accelerator_type config of Some a \<Rightarrow> a | None \<Rightarrow> ''Unknown'')"

definition generate_implementation_notes :: "string \<Rightarrow> ml_config \<Rightarrow> ml_config \<Rightarrow> string" where
  "generate_implementation_notes optimization_type current_config suggested_config =
     (let notes1 =
            (if py_in ''spot'' (lower optimization_type)
             then [''Enable spot/preemptible VMs in Vertex AI training configuration'',
                   ''Implement checkpointing to handle potential interruptions'']
             else []);
          notes2 =
            (if py_in ''downgrade'' (lower optimization_type) \<or>
                py_in ''machine_type'' (lower optimization_type)
             then notes1 @
                  [''Change accelerator from '' @ get_accelerator_type current_config @
                     '' to '' @ get_accelerator_type suggested_config,
                   ''Test model performance with new accelerator type'']
             else notes1);
          notes3 =
            (if py_in ''autoscaling'' (lower optimization_type)
             then notes2 @
                  [''Configure autoscaling policies in Vertex AI'',
                   ''Set appropriate min/max node counts'']
             else notes2);
          notes4 =
            (if py_in ''caching'' (lower optimization_type)
             then notes3 @
                  [''Enable Vertex AI caching for preprocessing steps'',
                   ''Cache feature engineering pipelines'']
             else notes3);
          notes =
            (if notes4 = []
             then [''Review AI suggestions and implement recommended changes'']
             else notes4)
      in join '' | '' notes)"

record ml_optimization_result =
  job_name :: string
  current_accelerator :: string
  suggested_accelerator :: string
  current_cost :: rat
  suggested_cost :: rat
  optimization_type :: string
  estimated_savings_percent :: rat
  implementation_notes :: string

definition ml_result :: "ml_job \<Rightarrow> ml_suggestion \<Rightarrow> ml_optimization_result" where
  "ml_result job_info suggestion =
     (let current_cost = j_estimated_cost job_info;
          suggested_cost = current_cost * (1 - m_estimated_savings_percent suggestion / 100)
      in \<lparr>job_name = m_job_name suggestion,
          current_accelerator = get_accelerator_type (m_current_config suggestion),
          suggested_accelerator = get_accelerator_type (m_suggested_config suggestion),
          current_cost = current_cost,
          suggested_cost = suggested_cost,
          optimization_type = m_optimization_type suggestion,
          estimated_savings_percent = m_estimated_savings_percent suggestion,
          implementation_notes =
            generate_implementation_notes (m_optimization_type suggestion)
              (m_current_config suggestion) (m_suggested_config suggestion)\<rparr>)"

text \<open>
  The loop over \<open>ai_suggestions\<close> of \<open>_run_ml_optimization_workflow\<close>;
  \<^verbatim>\<open>next((j for j in ml_job_metadata if ..), None)\<close> is \<open>find\<close>.
\<close>

fun ml_results :: "ml_job list \<Rightarrow> ml_suggestion list \<Rightarrow> ml_optimization_result list" where
  "ml_results ml_job_metadata [] = []"
| "ml_results ml_job_metadata (suggestion # rest) =
     (case find (\<lambda>j. j_job_name j = m_job_name suggestion) ml_job_metadata of
        Some job_info \<Rightarrow> ml_result job_info suggestion # ml_results ml_job_metadata rest
      | None \<Rightarrow> ml_results ml_job_metadata rest)"

section \<open>modules/storage\_optimization.py\<close>

text \<open>
  The bucket dictionaries of the simulator (timestamps in microseconds), the
  suggestion dictionaries returned by \<open>analyze_storage\<close> (with the value types
  its docstring gives) and the \<open>StorageOptimizationResult\<close> dataclass.
\<close>

record bucket =
  b_name :: string
  b_size_gb :: rat
  b_last_accessed :: int
  b_region :: string
  b_storage_class :: string

record storage_suggestion =
  s_bucket_name :: string
  s_issue :: string
  s_suggestion :: string
  s_estimated_savings_percent :: rat

definition storage_costs :: "(string \<times> rat) list" where
  "storage_costs =
     [(''STANDARD'', GCS_STANDARD_COST_PER_GB),
      (''NEARLINE'', GCS_NEARLINE_COST_PER_GB),
      (''COLDLINE'', GCS_COLDLINE_COST_PER_GB),
      (''ARCHIVE'', GCS_ARCHIVE_COST_PER_GB)]"

text \<open>\<^verbatim>\<open>storage_costs.get(current_storage_class, Config.GCS_STANDARD_COST_PER_GB)\<close>\<close>

definition current_cost_per_gb :: "string \<Rightarrow> rat" where
  "current_cost_per_gb current_storage_class =
     (case map_of storage_costs current_storage_class of
        Some c \<Rightarrow> c
      | None \<Rightarrow> GCS_STANDARD_COST_PER_GB)"

definition current_monthly_cost :: "bucket \<Rightarrow> rat" where
  "current_monthly_cost bucket_info =
     b_size_gb bucket_info * current_cost_per_gb (b_storage_class bucket_info)"

definition storage_action_type :: "string \<Rightarrow> string" where
  "storage_action_type suggestion_text =
     (let suggestion_lower = lower suggestion_text
      in if py_in ''delete'' suggestion_lower \<or> py_in ''remove'' suggestion_lower then ''delete''
         else if py_in ''compress'' suggestion_lower then ''compress''
         else if py_in ''lifecycle'' suggestion_lower then ''lifecycle''
         else ''move'')"

record storage_optimization_result =
  bucket_name :: string
  current_size_gb :: rat
  current_storage_class :: string
  last_accessed :: int
  issue :: string
  suggestion :: string
  estimated_savings_percent :: rat
  estimated_savings_usd :: rat
  action_type :: string

definition storage_result :: "bucket \<Rightarrow> storage_suggestion \<Rightarrow> storage_optimization_result" where
  "storage_result bucket_info sg =
     (let savings_percent = s_estimated_savings_percent sg;
          savings_usd = current_monthly_cost bucket_info * (savings_percent / 100)
      in \<lparr>bucket_name = s_bucket_name sg,
          current_size_gb = b_size_gb bucket_info,
          current_storage_class = b_storage_class bucket_info,
          last_accessed = b_last_accessed bucket_info,
          issue = s_issue sg,
          suggestion = s_suggestion sg,
          estimated_savings_percent = savings_percent,
          estimated_savings_usd = savings_usd,
          action_type = storage_action_type (s_suggestion sg)\<rparr>)"

text \<open>The loop over \<open>optimization_suggestions\<close> of \<open>_run_storage_optimization_workflow\<close>.\<close>

fun storage_results :: "bucket list \<Rightarrow> storage_suggestion list \<Rightarrow> storage_optimization_result list" where
  "storage_results bucket_metadata [] = []"
| "storage_results bucket_metadata (sg # rest) =
     (case find (\<lambda>b. b_name b = s_bucket_name sg) bucket_metadata of
        Some bucket_info \<Rightarrow> storage_result bucket_info sg # storage_results bucket_metadata rest
      | None \<Rightarrow> storage_results bucket_metadata rest)"

section \<open>simulators/storage\_simulator.py\<close>

subsection \<open>The random module and the clock\<close>

text \<open>
  The generator draws from Python's module-level random source. The source is
  a parameter: a state of any type \<open>'s\<close> with its two primitives,
  \<^verbatim>\<open>random()\<close> and \<^verbatim>\<open>_randbelow(n)\<close>, each returning the value drawn and the next
  state. \<open>choice\<close>, \<open>randint\<close> and \<open>uniform\<close> are written from them as in
  CPython's \<^verbatim>\<open>random.py\<close>.
\<close>

record 's random_source =
  rs_random :: "'s \<Rightarrow> rat \<times> 's"
  rs_randbelow :: "nat \<Rightarrow> 's \<Rightarrow> nat \<times> 's"

text \<open>The library's contract: \<^verbatim>\<open>random()\<close> is in [0, 1) and \<^verbatim>\<open>_randbelow(n)\<close> is below \<open>n\<close>.\<close>

definition source_ok :: "'s random_source \<Rightarrow> bool" where
  "source_ok rs =
     ((\<forall>s. 0 \<le> fst (rs_random rs s) \<and> fst (rs_random rs s) < 1) \<and>
      (\<forall>n s. 0 < n \<longrightarrow> fst (rs_randbelow rs n s) < n))"

definition choice :: "'s random_source \<Rightarrow> 'a list \<Rightarrow> 's \<Rightarrow> 'a \<times> 's" where
  "choice rs seq s = (let (k, s') = rs_randbelow rs (length seq) s in (seq ! k, s'))"

definition randint :: "'s random_source \<Rightarrow> int \<Rightarrow> int \<Rightarrow> 's \<Rightarrow> int \<times> 's" where
  "randint rs a b s = (let (k, s') = rs_randbelow rs (nat (b - a + 1)) s in (a + int k, s'))"

definition uniform :: "'s random_source \<Rightarrow> rat \<Rightarrow> rat \<Rightarrow> 's \<Rightarrow> rat \<times> 's" where
  "uniform rs a b s = (let (u, s') = rs_random rs s in (a + (b - a) * u, s'))"

text \<open>\<^verbatim>\<open>round(x, ndigits)\<close>: to the nearest multiple of \<open>10^-ndigits\<close>, ties to even.\<close>

definition round_half_even :: "rat \<Rightarrow> int" where
  "round_half_even y =
     (let f = \<lfloor>y\<rfloor>; d = y - of_int f
      in if d < 1 / 2 then f
         else if d > 1 / 2 then f + 1
         else if even f then f else f + 1)"

definition py_round :: "rat \<Rightarrow> nat \<Rightarrow> rat" where
  "py_round x ndigits = of_int (round_half_even (x * 10 ^ ndigits)) / 10 ^ ndigits"

text \<open>\<^verbatim>\<open>str\<close> of an integer.\<close>

fun str_nat :: "nat \<Rightarrow> string" where
  "str_nat n =
     (if n < 10 then [char_of (48 + n)]
      else str_nat (n div 10) @ [char_of (48 + n mod 10)])"

definition str_int :: "int \<Rightarrow> string" where
  "str_int i = (if i < 0 then ''-'' @ str_nat (nat (- i)) else str_nat (nat i))"

text \<open>\<^verbatim>\<open>timedelta(days=d)\<close> in microseconds.\<close>

definition timedelta_days :: "int \<Rightarrow> int" where
  "timedelta_days d = d * 86400000000"

subsection \<open>StorageSimulator.generate\_bucket\_metadata\<close>

definition STORAGE_CLASSES :: "string list" where
  "STORAGE_CLASSES = [''STANDARD'', ''NEARLINE'', ''COLDLINE'', ''ARCHIVE'']"

definition REGIONS :: "string list" where
  "REGIONS =
     [''us-central1'', ''us-east1'', ''us-west1'', ''us-west2'',
      ''europe-west1'', ''europe-west2'', ''asia-east1'', ''asia-southeast1'']"

definition BUCKET_PREFIXES :: "string list" where
  "BUCKET_PREFIXES =
     [''prod-data'', ''dev-logs'', ''analytics'', ''backups'', ''ml-datasets'',
      ''user-uploads'', ''archive'', ''temp-storage'', ''reports'', ''media-assets'']"

text \<open>
  One pass of the loop body: \<open>now\<close> is what \<^verbatim>\<open>datetime.now()\<close> returns in this
  pass, \<open>s\<close> the state of the random source when the pass starts.
\<close>

definition generate_bucket :: "'s random_source \<Rightarrow> int \<Rightarrow> 's \<Rightarrow> bucket \<times> 's" where
  "generate_bucket rs now s =
     (let (prefix, s1) = choice rs BUCKET_PREFIXES s;
          (suffix, s2) = randint rs 1000 9999 s1;
          bucket_name = prefix @ ''-'' @ str_int suffix;
          (size_distribution, s3) = rs_random rs s2;
          (size, s4) =
            (if size_distribution < 5 / 10 then uniform rs 1 100 s3
             else if size_distribution < 8 / 10 then uniform rs 100 1000 s3
             else uniform rs 1000 10000 s3);
          size_gb = py_round size 2;
          (days_ago, s5) = randint rs 1 365 s4;
          accessed = now - timedelta_days days_ago;
          (storage_class, s6) =
            (if days_ago < 30 then choice rs [''STANDARD'', ''NEARLINE''] s5
             else if days_ago < 90 then choice rs [''STANDARD'', ''NEARLINE'', ''COLDLINE''] s5
             else choice rs [''NEARLINE'', ''COLDLINE'', ''ARCHIVE''] s5);
          (region, s7) = choice rs REGIONS s6
      in (\<lparr>b_name = bucket_name,
           b_size_gb = size_gb,
           b_last_accessed = accessed,
           b_region = region,
           b_storage_class = storage_class\<rparr>, s7))"

text \<open>
  The loop \<^verbatim>\<open>for i in range(count)\<close>, from pass \<open>i\<close> with \<open>k\<close> passes left;
  \<open>clock i\<close> is the reading of \<^verbatim>\<open>datetime.now()\<close> in pass \<open>i\<close>.
\<close>

fun generate_loop :: "'s random_source \<Rightarrow> (nat \<Rightarrow> int) \<Rightarrow> nat \<Rightarrow> nat \<Rightarrow> 's \<Rightarrow> bucket list" where
  "generate_loop rs clock i 0 s = []"
| "generate_loop rs clock i (Suc k) s =
     (let (b, s') = generate_bucket rs (clock i) s
      in b # generate_loop rs clock (Suc i) k s')"

text \<open>The argument \<open>cnt\<close> is the source's \<open>count\<close>, a Python integer.\<close>

definition generate_bucket_metadata ::
  "'s random_source \<Rightarrow> (nat \<Rightarrow> int) \<Rightarrow> int \<Rightarrow> 's \<Rightarrow> bucket list" where
  "generate_bucket_metadata rs clock cnt s = generate_loop rs clock 0 (nat cnt) s"

text \<open>What one pass guarantees about the bucket it appends.\<close>

definition bucket_ok :: "int \<Rightarrow> bucket \<Rightarrow> bool" where
  "bucket_ok now b =
     (0 < b_size_gb b \<and>
      b_last_accessed b \<le> now - timedelta_days 1 \<and>
      b_storage_class b \<in> set STORAGE_CLASSES \<and>
      (timedelta_days 90 \<le> now - b_last_accessed b \<longrightarrow> b_storage_class b \<noteq> ''STANDARD''))"

text \<open>A small deterministic source on a counter, and a clock that ticks once per pass.\<close>

definition counter_source :: "nat random_source" where
  "counter_source =
     \<lparr>rs_random = (\<lambda>s. (of_nat (s mod 10) / 10, s + 1)),
      rs_randbelow = (\<lambda>n s. ((7 * s + 3) mod n, s + 1))\<rparr>"

definition ticking_clock :: "nat \<Rightarrow> int" where
  "ticking_clock i = 1700000000000000 + int i"

section \<open>Example inputs\<close>

text \<open>
  A provider that plays a script: call \<open>k\<close> does what entry \<open>k\<close> says, and
  every call after the script's end fails.
\<close>

definition scripted_provider :: "(string + string) list \<Rightarrow> string \<Rightarrow> nat \<Rightarrow> string + string" where
  "scripted_provider script prompt k =
     (if k < length script then script ! k else Inl ''connection closed'')"

text \<open>
  The service object seen by the SQL workflow, over a given client:
  \<open>dry_run_query\<close> catches every exception, so the call always returns a record.
\<close>

definition service_over :: "(string \<Rightarrow> string + int) \<Rightarrow> string \<Rightarrow> string + dry_run_result" where
  "service_over client_query query = Inr (dry_run_query client_query query)"

text \<open>Vocabulary for a pair's two dry runs.\<close>

definition original_fails :: "(string \<Rightarrow> string + dry_run_result) \<Rightarrow> query_data \<Rightarrow> bool" where
  "original_fails bigquery_service q =
     (case bigquery_service (q_original_query q) of
        Inr before_result \<Rightarrow> \<not> success before_result
      | Inl e \<Rightarrow> False)"

definition both_succeed :: "(string \<Rightarrow> string + dry_run_result) \<Rightarrow> query_data \<Rightarrow> bool" where
  "both_succeed bigquery_service q =
     (case bigquery_service (q_original_query q) of
        Inr before_result \<Rightarrow>
          success before_result \<and>
          (case bigquery_service (q_optimized_query q) of
             Inr after_result \<Rightarrow> success after_result
           | Inl e \<Rightarrow> False)
      | Inl e \<Rightarrow> False)"

text \<open>A client that knows no table called \<open>missing\<close>, and five query pairs; the third reads it.\<close>

definition example_client :: "string \<Rightarrow> string + int" where
  "example_client query =
     (if py_in ''missing'' query then Inl ''404 Not found: Table missing''
      else Inr (1000 * int (length query)))"

definition example_pair :: "string \<Rightarrow> string \<Rightarrow> string \<Rightarrow> query_data" where
  "example_pair qid orig opt =
     \<lparr>q_query_id = qid, q_original_query = orig, q_optimized_query = opt,
      q_optimizations_applied = [''Added LIMIT'']\<rparr>"

definition example_pairs :: "query_data list" where
  "example_pairs =
     [example_pair ''Query 1'' ''SELECT * FROM a'' ''SELECT x FROM a LIMIT 10'',
      example_pair ''Query 2'' ''SELECT * FROM b JOIN c'' ''SELECT x FROM b'',
      example_pair ''Query 3'' ''SELECT * FROM missing'' ''SELECT x FROM c'',
      example_pair ''Query 4'' ''SELECT * FROM d'' ''SELECT x FROM d'',
      example_pair ''Query 5'' ''SELECT * FROM e'' ''SELECT x FROM e'']"

text \<open>A client for which the table \<open>empty_t\<close> is empty, and one result of the example batch.\<close>

definition empty_table_client :: "string \<Rightarrow> string + int" where
  "empty_table_client query = (if py_in ''empty_t'' query then Inr 0 else Inr 1024)"

definition example_result :: sql_optimization_result where
  "example_result =
     sql_result (example_pair ''Query 1'' ''SELECT * FROM a'' ''SELECT x FROM a LIMIT 10'')
       (dry_run_query example_client ''SELECT * FROM a'')
       (dry_run_query example_client ''SELECT x FROM a LIMIT 10'')"

text \<open>Three buckets with two suggestions, and three training jobs with two suggestions.\<close>

definition example_bucket :: "string \<Rightarrow> rat \<Rightarrow> string \<Rightarrow> bucket" where
  "example_bucket n gb cls =
     \<lparr>b_name = n, b_size_gb = gb, b_last_accessed = 1690000000000000,
      b_region = ''us-east1'', b_storage_class = cls\<rparr>"

definition example_buckets :: "bucket list" where
  "example_buckets =
     [example_bucket ''prod-data-1001'' 500 ''STANDARD'',
      example_bucket ''dev-logs-2002'' 1200 ''NEARLINE'',
      example_bucket ''archive-3003'' 80 ''ARCHIVE'']"

definition example_suggestion :: "string \<Rightarrow> string \<Rightarrow> rat \<Rightarrow> storage_suggestion" where
  "example_suggestion n txt pct =
     \<lparr>s_bucket_name = n, s_issue = ''Rarely accessed'', s_suggestion = txt,
      s_estimated_savings_percent = pct\<rparr>"

definition example_suggestions :: "storage_suggestion list" where
  "example_suggestions =
     [example_suggestion ''dev-logs-2002'' ''Delete logs older than 90 days'' 60,
      example_suggestion ''prod-data-1001'' ''Move to NEARLINE'' 40]"

definition example_job :: "string \<Rightarrow> rat \<Rightarrow> ml_job" where
  "example_job n cost =
     \<lparr>j_job_name = n, j_gpu_hours = 10, j_cpu_hours = 20, j_peak_nodes = 2,
      j_accelerator_type = ''V100'', j_training_duration_hours = 5, j_estimated_cost = cost\<rparr>"

definition example_jobs :: "ml_job list" where
  "example_jobs =
     [example_job ''fraud_detection_training_1'' (248 / 10),
      example_job ''nlp_transformer_training_2'' (496 / 10),
      example_job ''customer_churn_training_3'' (124 / 10)]"

definition example_ml_suggestion :: "string \<Rightarrow> string \<Rightarrow> rat \<Rightarrow> ml_suggestion" where
  "example_ml_suggestion n ty pct =
     \<lparr>m_job_name = n,
      m_current_config = \<lparr>c_accelerator_type = Some ''V100''\<rparr>,
      m_suggested_config = \<lparr>c_accelerator_type = Some ''T4''\<rparr>,
      m_optimization_type = ty, m_estimated_savings_percent = pct\<rparr>"

definition example_ml_suggestions :: "ml_suggestion list" where
  "example_ml_suggestions =
     [example_ml_suggestion ''nlp_transformer_training_2'' ''spot_vm_and_downgrade'' 85,
      example_ml_suggestion ''fraud_detection_training_1'' ''autoscaling'' 30]"


section \<open>Error classification\<close>

lemma py_in_append_left: "py_in sub a \<Longrightarrow> py_in sub (a @ b)"
  unfolding py_in_def sublist_def by (metis append.assoc)

lemma handle_ai_error_original [simp]:
  "original_error (handle_ai_error e n) = e"
  by (simp add: handle_ai_error_def)

lemma rate_limit_retry:
  "error_type (handle_ai_error e n) = ''rate_limit'' \<Longrightarrow> should_retry (handle_ai_error e m) = (m > 0)"
  by (auto simp: handle_ai_error_def split: if_splits)

lemma authentication_info:
  "error_type (handle_ai_error e n) = ''authentication'' \<Longrightarrow>
     \<not> should_retry (handle_ai_error e m) \<and>
     user_message (handle_ai_error e m) = ''Invalid API key or authentication failed''"
  by (auto simp: handle_ai_error_def split: if_splits)

lemma retryable_kinds:
  "should_retry (handle_ai_error e k) \<Longrightarrow>
     error_type (handle_ai_error e k) = ''rate_limit'' \<or>
     error_type (handle_ai_error e k) = ''timeout''"
  by (auto simp: handle_ai_error_def split: if_splits)

lemma fatal_kinds:
  "error_type (handle_ai_error e k) = ''authentication'' \<or>
   error_type (handle_ai_error e k) = ''invalid_response'' \<Longrightarrow>
     \<not> should_retry (handle_ai_error e k)"
  by (auto simp: handle_ai_error_def split: if_splits)

lemma auth_message_marker:
  "py_in ''authentication'' ''Invalid API key or authentication failed''"
  by code_simp

text \<open>
  C10. \<open>handle_ai_error\<close> tests the message in a fixed order: the rate-limit
  markers (\<open>rate limit\<close>, \<open>quota\<close>) first, then the authentication markers
  (\<open>api key\<close>, \<open>authentication\<close>), then \<open>timeout\<close>, then the
  invalid-response markers (\<open>json\<close>, \<open>parse\<close>); the first test that holds
  fixes the kind, and only \<open>rate_limit\<close> and \<open>timeout\<close> are marked retryable,
  exactly when retries remain. So a message that carries a rate-limit marker
  together with an authentication marker is classified \<open>rate_limit\<close> and is
  marked retryable whenever retries remain.
\<close>

theorem classification_order:
  "error_type (handle_ai_error e n) =
     (if py_in ''rate limit'' (lower e) \<or> py_in ''quota'' (lower e) then ''rate_limit''
      else if py_in ''api key'' (lower e) \<or> py_in ''authentication'' (lower e) then ''authentication''
      else if py_in ''timeout'' (lower e) then ''timeout''
      else if py_in ''json'' (lower e) \<or> py_in ''parse'' (lower e) then ''invalid_response''
      else ''unknown'') \<and>
   should_retry (handle_ai_error e n) =
     (if py_in ''rate limit'' (lower e) \<or> py_in ''quota'' (lower e) then 0 < n
      else if py_in ''api key'' (lower e) \<or> py_in ''authentication'' (lower e) then False
      else if py_in ''timeout'' (lower e) then 0 < n
      else False) \<and>
   ((py_in ''rate limit'' (lower e) \<or> py_in ''quota'' (lower e)) \<and>
    (py_in ''api key'' (lower e) \<or> py_in ''authentication'' (lower e)) \<longrightarrow>
      error_type (handle_ai_error e n) = ''rate_limit'' \<and>
      should_retry (handle_ai_error e n) = (0 < n))"
  by (simp add: handle_ai_error_def)


theorem classification_order_witness:
  "error_type (handle_ai_error ''Quota exceeded for this API key'' 2) = ''rate_limit'' \<and>
   should_retry (handle_ai_error ''Quota exceeded for this API key'' 2) \<and>
   error_type (handle_ai_error ''Authentication timeout'' 2) = ''authentication'' \<and>
   \<not> should_retry (handle_ai_error ''Authentication timeout'' 2) \<and>
   error_type (handle_ai_error ''Timeout while reading JSON'' 2) = ''timeout'' \<and>
   should_retry (handle_ai_error ''Timeout while reading JSON'' 2) \<and>
   error_type (handle_ai_error ''Invalid JSON'' 2) = ''invalid_response'' \<and>
   \<not> should_retry (handle_ai_error ''Invalid JSON'' 2)"
proof -
  have m1: "(py_in ''rate limit'' (lower ''Quota exceeded for this API key'') \<or>
             py_in ''quota'' (lower ''Quota exceeded for this API key'')) \<and>
            (py_in ''api key'' (lower ''Quota exceeded for this API key'') \<or>
             py_in ''authentication'' (lower ''Quota exceeded for this API key''))"
    by code_simp
  have m2: "\<not> (py_in ''rate limit'' (lower ''Authentication timeout'') \<or>
                py_in ''quota'' (lower ''Authentication timeout'')) \<and>
            (py_in ''api key'' (lower ''Authentication timeout'') \<or>
             py_in ''authentication'' (lower ''Authentication timeout'')) \<and>
            py_in ''timeout'' (lower ''Authentication timeout'')"
    by code_simp
  have m3: "\<not> (py_in ''rate limit'' (lower ''Timeout while reading JSON'') \<or>
                py_in ''quota'' (lower ''Timeout while reading JSON'')) \<and>
            \<not> (py_in ''api key'' (lower ''Timeout while reading JSON'') \<or>
                py_in ''authentication'' (lower ''Timeout while reading JSON'')) \<and>
            py_in ''timeout'' (lower ''Timeout while reading JSON'') \<and>
            py_in ''json'' (lower ''Timeout while reading JSON'')"
    by code_simp
  have m4: "\<not> (py_in ''rate limit'' (lower ''Invalid JSON'') \<or>
                py_in ''quota'' (lower ''Invalid JSON'')) \<and>
            \<not> (py_in ''api key'' (lower ''Invalid JSON'') \<or>
                py_in ''authentication'' (lower ''Invalid JSON'')) \<and>
            \<not> py_in ''timeout'' (lower ''Invalid JSON'') \<and>
            py_in ''json'' (lower ''Invalid JSON'')"
    by code_simp
  have w1: "error_type (handle_ai_error ''Quota exceeded for this API key'' 2) = ''rate_limit'' \<and>
            should_retry (handle_ai_error ''Quota exceeded for this API key'' 2)"
    using classification_order [of "''Quota exceeded for this API key''" 2] m1 by simp
  have w2: "error_type (handle_ai_error ''Authentication timeout'' 2) = ''authentication'' \<and>
            \<not> should_retry (handle_ai_error ''Authentication timeout'' 2)"
    using classification_order [of "''Authentication timeout''" 2] m2 by simp
  have w3: "error_type (handle_ai_error ''Timeout while reading JSON'' 2) = ''timeout'' \<and>
            should_retry (handle_ai_error ''Timeout while reading JSON'' 2)"
    using classification_order [of "''Timeout while reading JSON''" 2] m3 by simp
  have w4: "error_type (handle_ai_error ''Invalid JSON'' 2) = ''invalid_response'' \<and>
            \<not> should_retry (handle_ai_error ''Invalid JSON'' 2)"
    using classification_order [of "''Invalid JSON''" 2] m4 by simp
  show ?thesis using w1 w2 w3 w4 by blast
qed

section \<open>Retry with backoff\<close>

text \<open>
  C3. With the default budget of 3 attempts, when the first two provider calls
  fail with errors classified \<open>rate_limit\<close> and the third call succeeds, the
  function sleeps exactly twice, for 1 and then 2 seconds, makes three
  provider calls and returns the text of the third.
\<close>

theorem two_rate_limits_then_success:
  assumes p0: "provider prompt 0 = Inl e0"
    and p1: "provider prompt 1 = Inl e1"
    and p2: "provider prompt 2 = Inr text"
    and c0: "error_type (handle_ai_error e0 n0) = ''rate_limit''"
    and c1: "error_type (handle_ai_error e1 n1) = ''rate_limit''"
  shows "call_ai_with_retry provider prompt 3 =
           \<lparr>outcome = Inr text, sleeps = [1, 2], calls = 3\<rparr>"
proof -
  have r0: "should_retry (handle_ai_error e0 2)"
    using rate_limit_retry [OF c0, of 2] by simp
  have r1: "should_retry (handle_ai_error e1 1)"
    using rate_limit_retry [OF c1, of 1] by simp
  have step2: "call_ai_loop provider prompt 3 2 [1, 2] =
                 \<lparr>outcome = Inr text, sleeps = [1, 2], calls = 3\<rparr>"
    by (subst call_ai_loop.simps) (simp add: p2)
  have step1: "call_ai_loop provider prompt 3 1 [1] = call_ai_loop provider prompt 3 2 [1, 2]"
    using p1 r1 by (subst call_ai_loop.simps) (simp add: numeral_2_eq_2)
  have step0: "call_ai_loop provider prompt 3 0 [] = call_ai_loop provider prompt 3 1 [1]"
    using p0 r0 by (subst call_ai_loop.simps) simp
  show ?thesis
    by (simp only: call_ai_with_retry_def step0 step1 step2)
qed

theorem two_rate_limits_then_success_witness:
  "call_ai_with_retry
     (scripted_provider [Inl ''429 Rate limit exceeded'', Inl ''Quota exhausted'', Inr ''{}''])
     ''optimize'' 3 =
   \<lparr>outcome = Inr ''{}'', sleeps = [1, 2], calls = 3\<rparr>"
proof -
  have c0: "error_type (handle_ai_error ''429 Rate limit exceeded'' 2) = ''rate_limit''"
    by code_simp
  have c1: "error_type (handle_ai_error ''Quota exhausted'' 1) = ''rate_limit''"
    by code_simp
  show ?thesis
    by (rule two_rate_limits_then_success
          [where provider =
             "scripted_provider [Inl ''429 Rate limit exceeded'', Inl ''Quota exhausted'', Inr ''{}'']"
           and prompt = "''optimize''", OF _ _ _ c0 c1])
       (simp_all add: scripted_provider_def)
qed

text \<open>One pass of the loop on a failed call: it either raises or sleeps and goes on.\<close>

lemma user_message_indep:
  "user_message (handle_ai_error e n) = user_message (handle_ai_error e m)"
  by (simp add: handle_ai_error_def)

lemma error_type_indep:
  "error_type (handle_ai_error e n) = error_type (handle_ai_error e m)"
  by (simp add: handle_ai_error_def)

lemma not_transient_no_retry:
  assumes "error_type (handle_ai_error e n) \<noteq> ''rate_limit''"
    and "error_type (handle_ai_error e n) \<noteq> ''timeout''"
  shows "\<not> should_retry (handle_ai_error e m)"
  using assms by (auto simp: handle_ai_error_def split: if_splits)

lemma transient_retry:
  assumes "error_type (handle_ai_error e n) = ''rate_limit'' \<or>
           error_type (handle_ai_error e n) = ''timeout''"
  shows "should_retry (handle_ai_error e m) = (0 < m)"
  using assms by (auto simp: handle_ai_error_def split: if_splits)

lemma invalid_response_message:
  assumes "error_type (handle_ai_error e n) = ''invalid_response''"
  shows "user_message (handle_ai_error e m) =
           ''Failed to parse AI response. The response format was invalid.''"
  using assms by (auto simp: handle_ai_error_def split: if_splits)

lemma loop_stops:
  assumes "int attempt < max_retries" and "provider prompt attempt = Inl e"
    and "\<not> should_retry (handle_ai_error e (max_retries - int attempt - 1))"
  shows "call_ai_loop provider prompt max_retries attempt waits =
           \<lparr>outcome = Inl (user_message (handle_ai_error e n) @ '': '' @ e),
            sleeps = waits, calls = attempt + 1\<rparr>"
  using assms user_message_indep [of e "max_retries - int attempt - 1" n]
  by (subst call_ai_loop.simps) (simp add: Let_def)

lemma loop_continues:
  assumes "int attempt < max_retries - 1" and "provider prompt attempt = Inl e"
    and "should_retry (handle_ai_error e (max_retries - int attempt - 1))"
  shows "call_ai_loop provider prompt max_retries attempt waits =
           call_ai_loop provider prompt max_retries (attempt + 1) (waits @ [2 ^ attempt])"
  using assms by (subst call_ai_loop.simps) (simp add: Let_def)

text \<open>
  C4. When the first provider call fails with an error classified
  \<open>authentication\<close> (and the budget allows a first call at all), the function
  makes that one call, never sleeps, and raises an exception whose message
  contains \<open>authentication\<close>. At every attempt of the loop, a failure classified
  \<open>authentication\<close> or \<open>invalid_response\<close>, and any failure classified neither
  \<open>rate_limit\<close> nor \<open>timeout\<close>, ends the run there: the exception is raised,
  no further provider call is made and no further sleep. A failure classified
  \<open>rate_limit\<close> or \<open>timeout\<close> before the last attempt sleeps \<open>2^attempt\<close>
  and goes on to the next attempt. The \<open>should_retry\<close> flag is set for no
  other kind than \<open>rate_limit\<close> and \<open>timeout\<close>.
\<close>

theorem fatal_kinds_never_retried:
  "(0 < max_retries \<and> provider prompt 0 = Inl e \<and>
    error_type (handle_ai_error e n) = ''authentication'' \<longrightarrow>
      call_ai_with_retry provider prompt max_retries =
        \<lparr>outcome = Inl (''Invalid API key or authentication failed: '' @ e),
         sleeps = [], calls = 1\<rparr> \<and>
      py_in ''authentication'' (''Invalid API key or authentication failed: '' @ e)) \<and>
   (int attempt < max_retries \<and> provider prompt attempt = Inl e \<and>
    error_type (handle_ai_error e n) = ''authentication'' \<longrightarrow>
      call_ai_loop provider prompt max_retries attempt waits =
        \<lparr>outcome = Inl (''Invalid API key or authentication failed: '' @ e),
         sleeps = waits, calls = attempt + 1\<rparr>) \<and>
   (int attempt < max_retries \<and> provider prompt attempt = Inl e \<and>
    error_type (handle_ai_error e n) = ''invalid_response'' \<longrightarrow>
      call_ai_loop provider prompt max_retries attempt waits =
        \<lparr>outcome =
           Inl (''Failed to parse AI response. The response format was invalid.: '' @ e),
         sleeps = waits, calls = attempt + 1\<rparr>) \<and>
   (int attempt < max_retries \<and> provider prompt attempt = Inl e \<and>
    error_type (handle_ai_error e n) \<noteq> ''rate_limit'' \<and>
    error_type (handle_ai_error e n) \<noteq> ''timeout'' \<longrightarrow>
      call_ai_loop provider prompt max_retries attempt waits =
        \<lparr>outcome = Inl (user_message (handle_ai_error e n) @ '': '' @ e),
         sleeps = waits, calls = attempt + 1\<rparr>) \<and>
   (int attempt < max_retries - 1 \<and> provider prompt attempt = Inl e \<and>
    (error_type (handle_ai_error e n) = ''rate_limit'' \<or>
     error_type (handle_ai_error e n) = ''timeout'') \<longrightarrow>
      call_ai_loop provider prompt max_retries attempt waits =
        call_ai_loop provider prompt max_retries (attempt + 1) (waits @ [2 ^ attempt])) \<and>
   (\<forall>e' k. should_retry (handle_ai_error e' k) \<longrightarrow>
             error_type (handle_ai_error e' k) = ''rate_limit'' \<or>
             error_type (handle_ai_error e' k) = ''timeout'') \<and>
   (\<forall>e' k. error_type (handle_ai_error e' k) = ''authentication'' \<or>
            error_type (handle_ai_error e' k) = ''invalid_response'' \<longrightarrow>
             \<not> should_retry (handle_ai_error e' k))"
proof (intro conjI impI allI)
  assume a: "0 < max_retries \<and> provider prompt 0 = Inl e \<and>
    error_type (handle_ai_error e n) = ''authentication''"
  then have lt: "int 0 < max_retries" by simp
  have nr: "\<not> should_retry (handle_ai_error e (max_retries - int 0 - 1))"
    using a authentication_info by blast
  have um: "user_message (handle_ai_error e n) = ''Invalid API key or authentication failed''"
    using a authentication_info by blast
  have "call_ai_loop provider prompt max_retries 0 [] =
      \<lparr>outcome = Inl (user_message (handle_ai_error e n) @ '': '' @ e), sleeps = [], calls = 0 + 1\<rparr>"
    using a by (intro loop_stops [OF lt _ nr]) simp
  then show "call_ai_with_retry provider prompt max_retries =
        \<lparr>outcome = Inl (''Invalid API key or authentication failed: '' @ e),
         sleeps = [], calls = 1\<rparr>"
    by (simp add: call_ai_with_retry_def um)
  have "py_in ''authentication'' (''Invalid API key or authentication failed'' @ ('': '' @ e))"
    by (rule py_in_append_left [OF auth_message_marker])
  then show "py_in ''authentication'' (''Invalid API key or authentication failed: '' @ e)"
    by simp
next
  assume a: "int attempt < max_retries \<and> provider prompt attempt = Inl e \<and>
    error_type (handle_ai_error e n) = ''authentication''"
  have nr: "\<not> should_retry (handle_ai_error e (max_retries - int attempt - 1))"
    using a authentication_info by blast
  have um: "user_message (handle_ai_error e n) = ''Invalid API key or authentication failed''"
    using a authentication_info by blast
  show "call_ai_loop provider prompt max_retries attempt waits =
        \<lparr>outcome = Inl (''Invalid API key or authentication failed: '' @ e),
         sleeps = waits, calls = attempt + 1\<rparr>"
    using loop_stops [where attempt = attempt and max_retries = max_retries and provider = provider and prompt = prompt and e = e and n = n and waits = waits] a nr um by simp
next
  assume a: "int attempt < max_retries \<and> provider prompt attempt = Inl e \<and>
    error_type (handle_ai_error e n) = ''invalid_response''"
  have nr: "\<not> should_retry (handle_ai_error e (max_retries - int attempt - 1))"
    using a by (intro not_transient_no_retry [of e n]) simp_all
  have um: "user_message (handle_ai_error e n) =
      ''Failed to parse AI response. The response format was invalid.''"
    using a invalid_response_message by blast
  show "call_ai_loop provider prompt max_retries attempt waits =
        \<lparr>outcome =
           Inl (''Failed to parse AI response. The response format was invalid.: '' @ e),
         sleeps = waits, calls = attempt + 1\<rparr>"
    using loop_stops [where attempt = attempt and max_retries = max_retries and provider = provider and prompt = prompt and e = e and n = n and waits = waits] a nr um by simp
next
  assume a: "int attempt < max_retries \<and> provider prompt attempt = Inl e \<and>
    error_type (handle_ai_error e n) \<noteq> ''rate_limit'' \<and>
    error_type (handle_ai_error e n) \<noteq> ''timeout''"
  have nr: "\<not> should_retry (handle_ai_error e (max_retries - int attempt - 1))"
    using a not_transient_no_retry by blast
  show "call_ai_loop provider prompt max_retries attempt waits =
        \<lparr>outcome = Inl (user_message (handle_ai_error e n) @ '': '' @ e),
         sleeps = waits, calls = attempt + 1\<rparr>"
    using loop_stops [where attempt = attempt and max_retries = max_retries and provider = provider and prompt = prompt and e = e and n = n and waits = waits] a nr by simp
next
  assume a: "int attempt < max_retries - 1 \<and> provider prompt attempt = Inl e \<and>
    (error_type (handle_ai_error e n) = ''rate_limit'' \<or>
     error_type (handle_ai_error e n) = ''timeout'')"
  have "should_retry (handle_ai_error e (max_retries - int attempt - 1))"
    using a transient_retry [of e n "max_retries - int attempt - 1"] by simp
  then show "call_ai_loop provider prompt max_retries attempt waits =
        call_ai_loop provider prompt max_retries (attempt + 1) (waits @ [2 ^ attempt])"
    using loop_continues [where attempt = attempt and max_retries = max_retries and provider = provider and prompt = prompt and e = e and waits = waits] a by simp
next
  fix e' k
  assume "should_retry (handle_ai_error e' k)"
  then show "error_type (handle_ai_error e' k) = ''rate_limit'' \<or>
             error_type (handle_ai_error e' k) = ''timeout''"
    by (rule retryable_kinds)
next
  fix e' k
  assume "error_type (handle_ai_error e' k) = ''authentication'' \<or>
            error_type (handle_ai_error e' k) = ''invalid_response''"
  then show "\<not> should_retry (handle_ai_error e' k)"
    by (rule fatal_kinds)
qed



theorem fatal_kinds_never_retried_witness:
  "call_ai_with_retry (scripted_provider [Inl ''API key not valid'', Inr ''{}'']) ''optimize'' 3 =
     \<lparr>outcome = Inl ''Invalid API key or authentication failed: API key not valid'',
      sleeps = [], calls = 1\<rparr> \<and>
   py_in ''authentication'' ''Invalid API key or authentication failed: API key not valid'' \<and>
   call_ai_with_retry
     (scripted_provider [Inl ''429 Rate limit exceeded'', Inl ''Failed to parse JSON'', Inr ''{}''])
     ''optimize'' 3 =
     \<lparr>outcome =
        Inl ''Failed to parse AI response. The response format was invalid.: Failed to parse JSON'',
      sleeps = [1], calls = 2\<rparr>"
proof -
  let ?p = "scripted_provider [Inl ''API key not valid'', Inr ''{}'']"
  let ?q = "scripted_provider [Inl ''429 Rate limit exceeded'', Inl ''Failed to parse JSON'', Inr ''{}'']"
  have p0: "?p ''optimize'' 0 = Inl ''API key not valid''"
    by (simp add: scripted_provider_def)
  have c0: "error_type (handle_ai_error ''API key not valid'' 2) = ''authentication''"
    by code_simp
  have first: "call_ai_with_retry ?p ''optimize'' 3 =
     \<lparr>outcome = Inl ''Invalid API key or authentication failed: API key not valid'',
      sleeps = [], calls = 1\<rparr> \<and>
     py_in ''authentication'' ''Invalid API key or authentication failed: API key not valid''"
    using fatal_kinds_never_retried
      [where provider = ?p and prompt = "''optimize''" and max_retries = 3
         and e = "''API key not valid''" and n = 2 and attempt = 0 and waits = "[]"]
      p0 c0
    by simp
  have q0: "?q ''optimize'' 0 = Inl ''429 Rate limit exceeded''"
    by (simp add: scripted_provider_def)
  have q1: "?q ''optimize'' 1 = Inl ''Failed to parse JSON''"
    by (simp add: scripted_provider_def)
  have k0: "error_type (handle_ai_error ''429 Rate limit exceeded'' 2) = ''rate_limit''"
    by code_simp
  have k1: "error_type (handle_ai_error ''Failed to parse JSON'' 1) = ''invalid_response''"
    by code_simp
  have step0: "call_ai_loop ?q ''optimize'' 3 0 [] = call_ai_loop ?q ''optimize'' 3 1 [1]"
    using fatal_kinds_never_retried
      [where provider = ?q and prompt = "''optimize''" and max_retries = 3
         and e = "''429 Rate limit exceeded''" and n = 2 and attempt = 0 and waits = "[]"]
      q0 k0
    by simp
  have step1: "call_ai_loop ?q ''optimize'' 3 1 [1] =
     \<lparr>outcome =
        Inl ''Failed to parse AI response. The response format was invalid.: Failed to parse JSON'',
      sleeps = [1], calls = 2\<rparr>"
    using fatal_kinds_never_retried
      [where provider = ?q and prompt = "''optimize''" and max_retries = 3
         and e = "''Failed to parse JSON''" and n = 1 and attempt = 1 and waits = "[1]"]
      q1 k1
    by simp
  show ?thesis
    using first step0 step1 by (simp add: call_ai_with_retry_def)
qed

section \<open>Dry-run cost estimation\<close>

text \<open>
  C1, as the code has it. When the dry run succeeds with \<open>bytes_processed\<close>
  bytes, \<open>estimated_cost_usd\<close> is \<open>bytes_processed / 2^40\<close> times the rate 5.0
  written in \<open>dry_run_query\<close> itself; \<open>Config.BIGQUERY_COST_PER_TB\<close>, which is
  50.0, is not read.
\<close>

theorem dry_run_cost_literal_rate:
  assumes "client_query query = Inr bytes_processed"
  shows "estimated_cost_usd (dry_run_query client_query query) =
           of_int bytes_processed / 2 ^ 40 * 5 \<and>
         total_bytes_processed (dry_run_query client_query query) = bytes_processed \<and>
         success (dry_run_query client_query query)"
  using assms by (simp add: dry_run_query_def)

theorem dry_run_cost_literal_rate_witness:
  "estimated_cost_usd (dry_run_query (fixed_bytes_client 2199023255552) ''SELECT 1'') = 10"
  using dry_run_cost_literal_rate
    [of "fixed_bytes_client 2199023255552" "''SELECT 1''" 2199023255552]
  by (simp add: fixed_bytes_client_def)

text \<open>One tebibyte costs 5, not \<open>BIGQUERY_COST_PER_TB\<close>.\<close>

theorem dry_run_cost_not_config_rate:
  "estimated_cost_usd (dry_run_query (fixed_bytes_client 1099511627776) ''SELECT 1'')
     \<noteq> of_int 1099511627776 / 2 ^ 40 * BIGQUERY_COST_PER_TB"
  by (simp add: dry_run_query_def fixed_bytes_client_def BIGQUERY_COST_PER_TB_def)

text \<open>
  C6. When the provider call raises, \<open>dry_run_query\<close> returns the failure
  record: \<open>success\<close> false, zero bytes, zero cost, and the exception text as
  \<open>error\<close>.
\<close>

theorem dry_run_failure_record:
  assumes "client_query query = Inl e"
  shows "dry_run_query client_query query =
           \<lparr>total_bytes_processed = 0, estimated_cost_usd = 0, success = False, error = Some e\<rparr>"
  using assms by (simp add: dry_run_query_def)

theorem dry_run_failure_record_witness:
  "dry_run_query (raising_client ''403 Access Denied'') ''SELECT 1'' =
     \<lparr>total_bytes_processed = 0, estimated_cost_usd = 0, success = False,
      error = Some ''403 Access Denied''\<rparr>"
  using dry_run_failure_record
    [of "raising_client ''403 Access Denied''" "''SELECT 1''" "''403 Access Denied''"]
  by (simp add: raising_client_def)

section \<open>SQL dry-run pairs\<close>



lemma drain_acc:
  "drain svc cs rs ws = (rs @ fst (drain svc cs [] []), ws @ snd (drain svc cs [] []))"
proof (induction cs arbitrary: rs ws)
  case Nil
  show ?case by simp
next
  case (Cons q cs)
  show ?case
  proof (cases "fst (process_query_pair_parallel (q_query_id q) (q_original_query q)
                  (q_optimized_query q) svc)")
    case (Failed qid err)
    then show ?thesis
      using Cons.IH [of rs "ws @ [(qid, err)]"] Cons.IH [of "[]" "[(qid, err)]"]
      by simp
  next
    case (Succeeded qid b a)
    then show ?thesis
      using Cons.IH [of "rs @ [sql_result q b a]" ws] Cons.IH [of "[sql_result q b a]" "[]"]
      by simp
  qed
qed

lemma process_both_succeed:
  assumes "both_succeed svc q"
  shows "\<exists>b a. svc (q_original_query q) = Inr b \<and> svc (q_optimized_query q) = Inr a \<and>
           success b \<and> success a \<and>
           process_query_pair_parallel (q_query_id q) (q_original_query q) (q_optimized_query q) svc =
           (Succeeded (q_query_id q) b a, [q_original_query q, q_optimized_query q])"
  using assms
  by (auto simp: both_succeed_def process_query_pair_parallel_def split: sum.splits)

lemma on_exception_Failed: "\<exists>err. on_exception qid e = Failed qid err"
  by (simp add: on_exception_def)

lemma on_failure_Failed: "\<exists>err. on_failure qid label res = Failed qid err"
  by (simp add: on_failure_def on_exception_def split: option.splits)

lemma process_original_fails:
  assumes "svc original = Inr before_result" "\<not> success before_result"
  shows "process_query_pair_parallel qid original optimized svc =
           (on_failure qid ''Original'' before_result, [original])"
  using assms by (simp add: process_query_pair_parallel_def)

lemma process_not_both:
  assumes "\<not> both_succeed svc q"
  shows "\<exists>err. fst (process_query_pair_parallel (q_query_id q) (q_original_query q) (q_optimized_query q) svc) =
           Failed (q_query_id q) err"
  using assms on_exception_Failed on_failure_Failed
  by (auto simp: both_succeed_def process_query_pair_parallel_def split: sum.splits)

lemma run_results_length:
  "length (fst (run_dry_runs svc cs)) = length (filter (both_succeed svc) cs)"
proof (induction cs)
  case Nil
  show ?case by (simp add: run_dry_runs_def)
next
  case (Cons q cs)
  show ?case
  proof (cases "both_succeed svc q")
    case True
    then obtain b a where
      "fst (process_query_pair_parallel (q_query_id q) (q_original_query q) (q_optimized_query q) svc)
         = Succeeded (q_query_id q) b a"
      using process_both_succeed by fastforce
    then show ?thesis
      using True Cons.IH drain_acc [of svc cs "[sql_result q b a]" "[]"]
      by (simp add: run_dry_runs_def)
  next
    case False
    then obtain err where
      "fst (process_query_pair_parallel (q_query_id q) (q_original_query q) (q_optimized_query q) svc)
         = Failed (q_query_id q) err"
      using process_not_both by blast
    then show ?thesis
      using False Cons.IH drain_acc [of svc cs "[]" "[(q_query_id q, err)]"]
      by (simp add: run_dry_runs_def)
  qed
qed

lemma run_warnings_ids:
  "map fst (snd (run_dry_runs svc cs)) = map q_query_id (filter (\<lambda>q. \<not> both_succeed svc q) cs)"
proof (induction cs)
  case Nil
  show ?case by (simp add: run_dry_runs_def)
next
  case (Cons q cs)
  show ?case
  proof (cases "both_succeed svc q")
    case True
    then obtain b a where
      "fst (process_query_pair_parallel (q_query_id q) (q_original_query q) (q_optimized_query q) svc)
         = Succeeded (q_query_id q) b a"
      using process_both_succeed by fastforce
    then show ?thesis
      using True Cons.IH drain_acc [of svc cs "[sql_result q b a]" "[]"]
      by (simp add: run_dry_runs_def)
  next
    case False
    then obtain err where
      "fst (process_query_pair_parallel (q_query_id q) (q_original_query q) (q_optimized_query q) svc)
         = Failed (q_query_id q) err"
      using process_not_both by blast
    then show ?thesis
      using False Cons.IH drain_acc [of svc cs "[]" "[(q_query_id q, err)]"]
      by (simp add: run_dry_runs_def)
  qed
qed


lemma run_results_member:
  assumes "r \<in> set (fst (run_dry_runs svc cs))"
  shows "\<exists>q b a. q \<in> set cs \<and> svc (q_original_query q) = Inr b \<and>
           svc (q_optimized_query q) = Inr a \<and> success b \<and> success a \<and>
           r = sql_result q b a"
  using assms
proof (induction cs)
  case Nil
  then show ?case by (simp add: run_dry_runs_def)
next
  case (Cons q cs)
  show ?case
  proof (cases "both_succeed svc q")
    case True
    then obtain b a where ba: "svc (q_original_query q) = Inr b" "svc (q_optimized_query q) = Inr a"
      "success b" "success a"
      "process_query_pair_parallel (q_query_id q) (q_original_query q) (q_optimized_query q) svc =
         (Succeeded (q_query_id q) b a, [q_original_query q, q_optimized_query q])"
      using process_both_succeed by blast
    have "fst (run_dry_runs svc (q # cs)) = sql_result q b a # fst (run_dry_runs svc cs)"
      using ba(5) drain_acc [of svc cs "[sql_result q b a]" "[]"]
      by (simp add: run_dry_runs_def)
    then have "r = sql_result q b a \<or> r \<in> set (fst (run_dry_runs svc cs))"
      using Cons.prems by simp
    then show ?thesis
    proof
      assume "r = sql_result q b a"
      then show ?thesis using ba by (intro exI [of _ q] exI [of _ b] exI [of _ a]) simp
    next
      assume "r \<in> set (fst (run_dry_runs svc cs))"
      then show ?thesis using Cons.IH by fastforce
    qed
  next
    case False
    then obtain err where
      "fst (process_query_pair_parallel (q_query_id q) (q_original_query q) (q_optimized_query q) svc)
         = Failed (q_query_id q) err"
      using process_not_both by blast
    then have "fst (run_dry_runs svc (q # cs)) = fst (run_dry_runs svc cs)"
      using drain_acc [of svc cs "[]" "[(q_query_id q, err)]"]
      by (simp add: run_dry_runs_def)
    then show ?thesis using Cons.prems Cons.IH by fastforce
  qed
qed

lemma sql_result_savings:
  "savings_percent (sql_result q b a) =
     (if total_bytes_processed b > 0
      then of_int (total_bytes_processed b - total_bytes_processed a) / of_int (total_bytes_processed b) * 100
      else 0)"
  "bytes_before (sql_result q b a) = total_bytes_processed b"
  "bytes_after (sql_result q b a) = total_bytes_processed a"
  by (simp_all add: sql_result_def Let_def)

lemma negative_ratio:
  fixes x y :: int
  assumes "0 < x" "x < y"
  shows "(of_int (x - y) :: rat) / of_int x * 100 < 0"
proof -
  have "(of_int (x - y) :: rat) < 0" using assms by simp
  moreover have "(0 :: rat) < of_int x" using assms by simp
  ultimately have "(of_int (x - y) :: rat) / of_int x < 0"
    by (simp add: divide_neg_pos)
  then show ?thesis by (rule mult_neg_pos) simp
qed

text \<open>
  C2, as the code has it. For every result of the dry-run step,
  \<open>savings_percent\<close> is \<open>(bytes_before - bytes_after) / bytes_before * 100\<close>
  when \<open>bytes_before > 0\<close> and 0 when \<open>bytes_before = 0\<close>; when
  \<open>bytes_after > bytes_before > 0\<close> it is negative, not clamped to zero.
\<close>

theorem savings_percent_formula:
  assumes "r \<in> set (fst (run_dry_runs svc completed))"
  shows "(0 < bytes_before r \<longrightarrow>
            savings_percent r = of_int (bytes_before r - bytes_after r) / of_int (bytes_before r) * 100) \<and>
         (bytes_before r = 0 \<longrightarrow> savings_percent r = 0) \<and>
         (0 < bytes_before r \<and> bytes_before r < bytes_after r \<longrightarrow> savings_percent r < 0)"
proof -
  obtain q b a where r: "r = sql_result q b a"
    using run_results_member [OF assms] by blast
  show ?thesis
    unfolding r sql_result_savings
    using negative_ratio [of "total_bytes_processed b" "total_bytes_processed a"]
    by simp
qed


theorem savings_percent_formula_witness:
  "savings_percent example_result =
     of_int (bytes_before example_result - bytes_after example_result) /
       of_int (bytes_before example_result) * 100 \<and>
   savings_percent example_result < 0"
proof -
  have mem: "example_result \<in> set (fst (run_dry_runs (service_over example_client) (rev example_pairs)))"
    by code_simp
  have pos: "0 < bytes_before example_result \<and> bytes_before example_result < bytes_after example_result"
    by code_simp
  show ?thesis using savings_percent_formula [OF mem] pos by blast
qed

text \<open>
  With no bytes before and some bytes after, \<open>bytes_after > bytes_before\<close> holds
  and \<open>savings_percent\<close> is 0, not negative.
\<close>

theorem savings_zero_without_bytes_before:
  "fst (run_dry_runs (service_over empty_table_client)
          [example_pair ''Query 1'' ''SELECT * FROM empty_t'' ''SELECT x FROM t'']) =
     [sql_result (example_pair ''Query 1'' ''SELECT * FROM empty_t'' ''SELECT x FROM t'')
        (dry_run_query empty_table_client ''SELECT * FROM empty_t'')
        (dry_run_query empty_table_client ''SELECT x FROM t'')] \<and>
   bytes_before (sql_result (example_pair ''Query 1'' ''SELECT * FROM empty_t'' ''SELECT x FROM t'')
        (dry_run_query empty_table_client ''SELECT * FROM empty_t'')
        (dry_run_query empty_table_client ''SELECT x FROM t''))
     < bytes_after (sql_result (example_pair ''Query 1'' ''SELECT * FROM empty_t'' ''SELECT x FROM t'')
        (dry_run_query empty_table_client ''SELECT * FROM empty_t'')
        (dry_run_query empty_table_client ''SELECT x FROM t'')) \<and>
   \<not> savings_percent (sql_result (example_pair ''Query 1'' ''SELECT * FROM empty_t'' ''SELECT x FROM t'')
        (dry_run_query empty_table_client ''SELECT * FROM empty_t'')
        (dry_run_query empty_table_client ''SELECT x FROM t'')) < 0"
  by code_simp

lemma five_pairs:
  assumes "length (pairs :: 'a list) = 5"
  shows "pairs = [pairs ! 0, pairs ! 1, pairs ! 2, pairs ! 3, pairs ! 4]"
proof -
  obtain a b c d e where "pairs = [a, b, c, d, e]"
    using assms by (auto simp: eval_nat_numeral length_Suc_conv)
  then show ?thesis by simp
qed

lemma filter_length_mset:
  assumes "mset xs = mset ys"
  shows "length (filter P xs) = length (filter P ys)"
proof -
  have "mset (filter P xs) = mset (filter P ys)" using assms by simp
  then show ?thesis by (metis size_mset)
qed


text \<open>
  C5. When the dry run of the original query returns a record whose
  \<open>success\<close> is false, the pair fails and only the original query was dry-run:
  with an error text that carries an authentication marker the failure is
  the authentication one, otherwise the generic one. In a batch of five
  pairs where the original query of the third fails and both dry runs of
  the other four succeed, whatever the order in which the tasks complete,
  four results are produced and the one warning is about the third pair.
\<close>

theorem failed_original_stops_pair:
  "(svc orig = Inr before_result \<and> \<not> success before_result \<longrightarrow>
      (\<exists>err. process_query_pair_parallel qid orig opt svc =
               (Failed qid err, [orig]) \<and>
             (\<forall>error_msg. error before_result = Some error_msg \<longrightarrow>
                err = (if auth_marker error_msg then ''Authentication error - check credentials''
                       else ''Original query failed: '' @ take 150 error_msg)))) \<and>
   (length pairs = 5 \<and> mset completed = mset pairs \<and>
    original_fails svc (pairs ! 2) \<and>
    (\<forall>i < 5. i \<noteq> 2 \<longrightarrow> both_succeed svc (pairs ! i)) \<longrightarrow>
      length (fst (run_dry_runs svc completed)) = 4 \<and>
      map fst (snd (run_dry_runs svc completed)) = [q_query_id (pairs ! 2)])"
proof (intro conjI impI)
  assume a: "svc orig = Inr before_result \<and> \<not> success before_result"
  have run: "process_query_pair_parallel qid orig opt svc =
           (on_failure qid ''Original'' before_result, [orig])"
    using a by (simp add: process_original_fails)
  show "\<exists>err. process_query_pair_parallel qid orig opt svc =
               (Failed qid err, [orig]) \<and>
             (\<forall>error_msg. error before_result = Some error_msg \<longrightarrow>
                err = (if auth_marker error_msg then ''Authentication error - check credentials''
                       else ''Original query failed: '' @ take 150 error_msg))"
  proof (cases "error before_result")
    case None
    then show ?thesis
      using run on_exception_Failed [of qid none_not_iterable]
      by (auto simp: on_failure_def)
  next
    case (Some msg)
    then show ?thesis
      using run by (simp add: on_failure_def)
  qed
next
  assume b: "length pairs = 5 \<and> mset completed = mset pairs \<and>
    original_fails svc (pairs ! 2) \<and>
    (\<forall>i < 5. i \<noteq> 2 \<longrightarrow> both_succeed svc (pairs ! i))"
  obtain p0 p1 p2 p3 p4 where shape: "pairs = [p0, p1, p2, p3, p4]"
    using b by (auto simp: eval_nat_numeral length_Suc_conv)
  from b have all: "\<And>i. i < 5 \<Longrightarrow> i \<noteq> 2 \<Longrightarrow> both_succeed svc (pairs ! i)"
    by blast
  have "original_fails svc p2"
    using b shape by simp
  then have nb: "\<not> both_succeed svc p2"
    by (auto simp: original_fails_def both_succeed_def split: sum.splits)
  have ok: "both_succeed svc p0" "both_succeed svc p1" "both_succeed svc p3" "both_succeed svc p4"
    using all [of 0] all [of 1] all [of 3] all [of 4] shape by simp_all
  have "length (filter (both_succeed svc) pairs) = 4"
    by (simp add: shape nb ok)
  then have "length (filter (both_succeed svc) completed) = 4"
    using filter_length_mset [of completed pairs "both_succeed svc"] b by simp
  then show "length (fst (run_dry_runs svc completed)) = 4"
    by (simp add: run_results_length)
  have "filter (\<lambda>q. \<not> both_succeed svc q) pairs = [p2]"
    by (simp add: shape nb ok)
  moreover have "mset (filter (\<lambda>q. \<not> both_succeed svc q) completed) =
                 mset (filter (\<lambda>q. \<not> both_succeed svc q) pairs)"
    using b by simp
  ultimately have "mset (filter (\<lambda>q. \<not> both_succeed svc q) completed) = {#p2#}"
    by simp
  then have "filter (\<lambda>q. \<not> both_succeed svc q) completed = [p2]"
    by (simp only: mset_single_iff)
  then show "map fst (snd (run_dry_runs svc completed)) = [q_query_id (pairs ! 2)]"
    by (simp add: run_warnings_ids shape)
qed



theorem failed_original_stops_pair_witness:
  "process_query_pair_parallel ''Query 3'' ''SELECT * FROM missing'' ''SELECT x FROM c''
     (service_over example_client) =
     (Failed ''Query 3'' ''Original query failed: 404 Not found: Table missing'',
      [''SELECT * FROM missing'']) \<and>
   length (fst (run_dry_runs (service_over example_client) (rev example_pairs))) = 4 \<and>
   map fst (snd (run_dry_runs (service_over example_client) (rev example_pairs))) = [''Query 3'']"
proof -
  let ?svc = "service_over example_client"
  let ?B = "dry_run_query example_client ''SELECT * FROM missing''"
  have h1: "?svc ''SELECT * FROM missing'' = Inr ?B \<and> \<not> success ?B"
    by code_simp
  have err: "error ?B = Some ''404 Not found: Table missing''"
    by code_simp
  have na: "\<not> auth_marker ''404 Not found: Table missing''"
    by code_simp
  have b0: "both_succeed ?svc (example_pairs ! 0)" by code_simp
  have b1: "both_succeed ?svc (example_pairs ! 1)" by code_simp
  have b3: "both_succeed ?svc (example_pairs ! 3)" by code_simp
  have b4: "both_succeed ?svc (example_pairs ! 4)" by code_simp
  have others: "\<forall>i<5. i \<noteq> 2 \<longrightarrow> both_succeed ?svc (example_pairs ! i)"
  proof (intro allI impI)
    fix i :: nat
    assume "i < 5" "i \<noteq> 2"
    then consider "i = 0" | "i = 1" | "i = 3" | "i = 4" by linarith
    then show "both_succeed ?svc (example_pairs ! i)"
      using b0 b1 b3 b4 by cases simp_all
  qed
  have len: "length example_pairs = 5" by code_simp
  have perm: "mset (rev example_pairs) = mset example_pairs" by simp
  have fails: "original_fails ?svc (example_pairs ! 2)" by code_simp
  have id3: "q_query_id (example_pairs ! 2) = ''Query 3''" by code_simp
  have h2: "length example_pairs = 5 \<and> mset (rev example_pairs) = mset example_pairs \<and>
    original_fails ?svc (example_pairs ! 2) \<and>
    (\<forall>i<5. i \<noteq> 2 \<longrightarrow> both_succeed ?svc (example_pairs ! i))"
    using len perm fails others by blast
  show ?thesis
    using failed_original_stops_pair [where svc = ?svc and orig = "''SELECT * FROM missing''" and before_result = ?B
                and qid = "''Query 3''" and opt = "''SELECT x FROM c''"
                and pairs = example_pairs and completed = "rev example_pairs"]
          h1 h2 err na id3
    by auto
qed

section \<open>Result aggregation\<close>


lemma find_Some_name:
  "find (\<lambda>b. b_name b = n) md = Some b \<Longrightarrow> b \<in> set md \<and> b_name b = n"
  by (auto simp: find_Some_iff)

lemma find_None_name:
  "(find (\<lambda>b. b_name b = n) md = None) = (n \<notin> b_name ` set md)"
  by (auto simp: find_None_iff)

lemma storage_results_names:
  "map bucket_name (storage_results md sgs) =
     map s_bucket_name (filter (\<lambda>sg. s_bucket_name sg \<in> b_name ` set md) sgs)"
proof (induction sgs)
  case Nil
  show ?case by simp
next
  case (Cons sg sgs)
  show ?case
  proof (cases "find (\<lambda>b. b_name b = s_bucket_name sg) md")
    case None
    moreover from None have "s_bucket_name sg \<notin> b_name ` set md"
      using find_None_name [of "s_bucket_name sg" md] by simp
    ultimately show ?thesis using Cons.IH by simp
  next
    case (Some b)
    then have "s_bucket_name sg \<in> b_name ` set md"
      using find_None_name [of "s_bucket_name sg" md] by simp
    then show ?thesis using Some Cons.IH by (simp add: storage_result_def Let_def)
  qed
qed

lemma find_None_job:
  "(find (\<lambda>j. j_job_name j = n) jobs = None) = (n \<notin> j_job_name ` set jobs)"
  by (auto simp: find_None_iff)

lemma ml_results_names:
  "map job_name (ml_results jobs ms) =
     map m_job_name (filter (\<lambda>m. m_job_name m \<in> j_job_name ` set jobs) ms)"
proof (induction ms)
  case Nil
  show ?case by simp
next
  case (Cons m ms)
  show ?case
  proof (cases "find (\<lambda>j. j_job_name j = m_job_name m) jobs")
    case None
    moreover from None have "m_job_name m \<notin> j_job_name ` set jobs"
      using find_None_job [of "m_job_name m" jobs] by simp
    ultimately show ?thesis using Cons.IH by simp
  next
    case (Some j)
    then have "m_job_name m \<in> j_job_name ` set jobs"
      using find_None_job [of "m_job_name m" jobs] by simp
    then show ?thesis using Some Cons.IH by (simp add: ml_result_def Let_def)
  qed
qed

lemma storage_results_member:
  assumes "r \<in> set (storage_results md sgs)"
  shows "\<exists>sg b. sg \<in> set sgs \<and> find (\<lambda>b. b_name b = s_bucket_name sg) md = Some b \<and>
           r = storage_result b sg"
  using assms
proof (induction sgs)
  case Nil
  then show ?case by simp
next
  case (Cons sg sgs)
  show ?case
  proof (cases "find (\<lambda>b. b_name b = s_bucket_name sg) md")
    case None
    then show ?thesis using Cons by fastforce
  next
    case (Some b)
    then have "r = storage_result b sg \<or> r \<in> set (storage_results md sgs)"
      using Cons.prems by simp
    then show ?thesis
    proof
      assume "r = storage_result b sg"
      then show ?thesis using Some by (intro exI [of _ sg] exI [of _ b]) simp
    next
      assume "r \<in> set (storage_results md sgs)"
      then show ?thesis using Cons.IH by fastforce
    qed
  qed
qed

lemma storage_result_fields:
  "storage_optimization_result.estimated_savings_percent (storage_result b sg) = s_estimated_savings_percent sg"
  "estimated_savings_usd (storage_result b sg) =
     current_monthly_cost b * (s_estimated_savings_percent sg / 100)"
  "bucket_name (storage_result b sg) = s_bucket_name sg"
  "current_size_gb (storage_result b sg) = b_size_gb b"
  "current_storage_class (storage_result b sg) = b_storage_class b"
  by (simp_all add: storage_result_def Let_def)

lemma tier_rates:
  "current_cost_per_gb ''STANDARD'' = 20 / 1000"
  "current_cost_per_gb ''NEARLINE'' = 10 / 1000"
  "current_cost_per_gb ''COLDLINE'' = 4 / 1000"
  "current_cost_per_gb ''ARCHIVE'' = 12 / 10000"
  by (simp_all add: current_cost_per_gb_def storage_costs_def GCS_STANDARD_COST_PER_GB_def
      GCS_NEARLINE_COST_PER_GB_def GCS_COLDLINE_COST_PER_GB_def GCS_ARCHIVE_COST_PER_GB_def)

text \<open>
  C7. Every storage result comes from a suggestion and the first bucket of the
  metadata that carries its name, and its \<open>estimated_savings_usd\<close> is, in the
  order in which the code computes it, the bucket's current monthly cost
  times \<open>(estimated_savings_percent / 100)\<close>; the current monthly cost is
  \<open>size_gb\<close> times the rate of the bucket's storage class: STANDARD 0.020,
  NEARLINE 0.010, COLDLINE 0.004, ARCHIVE 0.0012.
\<close>

theorem storage_savings_usd:
  assumes "r \<in> set (storage_results bucket_metadata suggestions)"
  shows "\<exists>sg b. sg \<in> set suggestions \<and>
           find (\<lambda>b. b_name b = s_bucket_name sg) bucket_metadata = Some b \<and>
           b \<in> set bucket_metadata \<and> b_name b = s_bucket_name sg \<and> r = storage_result b sg \<and>
           estimated_savings_usd r =
             current_monthly_cost b *
               (storage_optimization_result.estimated_savings_percent r / 100) \<and>
           current_monthly_cost b = b_size_gb b * current_cost_per_gb (b_storage_class b) \<and>
           current_cost_per_gb ''STANDARD'' = 20 / 1000 \<and>
           current_cost_per_gb ''NEARLINE'' = 10 / 1000 \<and>
           current_cost_per_gb ''COLDLINE'' = 4 / 1000 \<and>
           current_cost_per_gb ''ARCHIVE'' = 12 / 10000"
proof -
  obtain sg b where sb: "sg \<in> set suggestions"
    "find (\<lambda>b. b_name b = s_bucket_name sg) bucket_metadata = Some b" "r = storage_result b sg"
    using storage_results_member [OF assms] by blast
  have "b \<in> set bucket_metadata \<and> b_name b = s_bucket_name sg"
    using find_Some_name [OF sb(2)] .
  moreover have "estimated_savings_usd r =
      current_monthly_cost b * (storage_optimization_result.estimated_savings_percent r / 100)"
    by (simp add: sb(3) storage_result_fields)
  moreover have "current_monthly_cost b = b_size_gb b * current_cost_per_gb (b_storage_class b)"
    by (simp add: current_monthly_cost_def)
  ultimately show ?thesis
    using sb tier_rates by blast
qed



theorem storage_savings_usd_witness:
  "\<exists>b \<in> set example_buckets.
     b_name b = ''dev-logs-2002'' \<and>
     estimated_savings_usd
       (storage_result (example_bucket ''dev-logs-2002'' 1200 ''NEARLINE'')
          (example_suggestion ''dev-logs-2002'' ''Delete logs older than 90 days'' 60)) =
     current_monthly_cost b * (60 / 100)"
proof -
  let ?r = "storage_result (example_bucket ''dev-logs-2002'' 1200 ''NEARLINE'')
          (example_suggestion ''dev-logs-2002'' ''Delete logs older than 90 days'' 60)"
  have mem: "?r \<in> set (storage_results example_buckets example_suggestions)"
    by code_simp
  have pct: "storage_optimization_result.estimated_savings_percent ?r = 60"
    by code_simp
  have nm: "bucket_name ?r = ''dev-logs-2002''"
    by code_simp
  obtain sg b where sb: "b \<in> set example_buckets" "b_name b = s_bucket_name sg"
    "?r = storage_result b sg"
    "estimated_savings_usd ?r =
       current_monthly_cost b * (storage_optimization_result.estimated_savings_percent ?r / 100)"
    using storage_savings_usd [OF mem] by blast
  have "bucket_name ?r = s_bucket_name sg"
    by (subst sb(3)) (simp add: storage_result_fields)
  then have "b_name b = ''dev-logs-2002''"
    using nm sb(2) by simp
  then show ?thesis
    using sb(1,4) pct by auto
qed

lemma length_map_eq: "map f xs = map g ys \<Longrightarrow> length xs = length ys"
  by (metis length_map)

text \<open>
  C8. Both aggregators produce one result per suggestion whose name occurs in
  the metadata, in the order of the suggestions, and nothing for the other
  suggestions. With 3 metadata records and 2 suggestions that all name a
  metadata record, 2 results are produced, and a metadata record that no
  suggestion names has no result.
\<close>

theorem one_result_per_matched_suggestion:
  "map bucket_name (storage_results bucket_metadata suggestions) =
     map s_bucket_name
       (filter (\<lambda>sg. s_bucket_name sg \<in> b_name ` set bucket_metadata) suggestions) \<and>
   map job_name (ml_results ml_job_metadata ai_suggestions) =
     map m_job_name
       (filter (\<lambda>m. m_job_name m \<in> j_job_name ` set ml_job_metadata) ai_suggestions) \<and>
   (length bucket_metadata = 3 \<and> length suggestions = 2 \<and>
    (\<forall>sg \<in> set suggestions. s_bucket_name sg \<in> b_name ` set bucket_metadata) \<and>
    b \<in> set bucket_metadata \<and> b_name b \<notin> s_bucket_name ` set suggestions \<longrightarrow>
      length (storage_results bucket_metadata suggestions) = 2 \<and>
      b_name b \<notin> bucket_name ` set (storage_results bucket_metadata suggestions)) \<and>
   (length ml_job_metadata = 3 \<and> length ai_suggestions = 2 \<and>
    (\<forall>m \<in> set ai_suggestions. m_job_name m \<in> j_job_name ` set ml_job_metadata) \<and>
    j \<in> set ml_job_metadata \<and> j_job_name j \<notin> m_job_name ` set ai_suggestions \<longrightarrow>
      length (ml_results ml_job_metadata ai_suggestions) = 2 \<and>
      j_job_name j \<notin> job_name ` set (ml_results ml_job_metadata ai_suggestions))"
proof (intro conjI impI)
  show "map bucket_name (storage_results bucket_metadata suggestions) =
     map s_bucket_name
       (filter (\<lambda>sg. s_bucket_name sg \<in> b_name ` set bucket_metadata) suggestions)"
    by (rule storage_results_names)
  show "map job_name (ml_results ml_job_metadata ai_suggestions) =
     map m_job_name
       (filter (\<lambda>m. m_job_name m \<in> j_job_name ` set ml_job_metadata) ai_suggestions)"
    by (rule ml_results_names)
next
  assume a: "length bucket_metadata = 3 \<and> length suggestions = 2 \<and>
    (\<forall>sg \<in> set suggestions. s_bucket_name sg \<in> b_name ` set bucket_metadata) \<and>
    b \<in> set bucket_metadata \<and> b_name b \<notin> s_bucket_name ` set suggestions"
  then have all: "filter (\<lambda>sg. s_bucket_name sg \<in> b_name ` set bucket_metadata) suggestions = suggestions"
    by (simp add: filter_id_conv)
  have names: "map bucket_name (storage_results bucket_metadata suggestions) = map s_bucket_name suggestions"
    using storage_results_names [of bucket_metadata suggestions] all by simp
  show "length (storage_results bucket_metadata suggestions) = 2"
    using length_map_eq [OF names] a by simp
  have "bucket_name ` set (storage_results bucket_metadata suggestions) = s_bucket_name ` set suggestions"
    using names by (metis set_map)
  then show "b_name b \<notin> bucket_name ` set (storage_results bucket_metadata suggestions)"
    using a by simp
next
  assume a: "length ml_job_metadata = 3 \<and> length ai_suggestions = 2 \<and>
    (\<forall>m \<in> set ai_suggestions. m_job_name m \<in> j_job_name ` set ml_job_metadata) \<and>
    j \<in> set ml_job_metadata \<and> j_job_name j \<notin> m_job_name ` set ai_suggestions"
  then have all: "filter (\<lambda>m. m_job_name m \<in> j_job_name ` set ml_job_metadata) ai_suggestions = ai_suggestions"
    by (simp add: filter_id_conv)
  have names: "map job_name (ml_results ml_job_metadata ai_suggestions) = map m_job_name ai_suggestions"
    using ml_results_names [of ml_job_metadata ai_suggestions] all by simp
  show "length (ml_results ml_job_metadata ai_suggestions) = 2"
    using length_map_eq [OF names] a by simp
  have "job_name ` set (ml_results ml_job_metadata ai_suggestions) = m_job_name ` set ai_suggestions"
    using names by (metis set_map)
  then show "j_job_name j \<notin> job_name ` set (ml_results ml_job_metadata ai_suggestions)"
    using a by simp
qed


theorem one_result_per_matched_suggestion_witness:
  "length (storage_results example_buckets example_suggestions) = 2 \<and>
   ''archive-3003'' \<notin> bucket_name ` set (storage_results example_buckets example_suggestions) \<and>
   length (ml_results example_jobs example_ml_suggestions) = 2 \<and>
   ''customer_churn_training_3'' \<notin> job_name ` set (ml_results example_jobs example_ml_suggestions)"
proof -
  have h1: "length example_buckets = 3 \<and> length example_suggestions = 2 \<and>
    (\<forall>sg \<in> set example_suggestions. s_bucket_name sg \<in> b_name ` set example_buckets) \<and>
    example_bucket ''archive-3003'' 80 ''ARCHIVE'' \<in> set example_buckets \<and>
    b_name (example_bucket ''archive-3003'' 80 ''ARCHIVE'') \<notin> s_bucket_name ` set example_suggestions"
    by code_simp
  have h2: "length example_jobs = 3 \<and> length example_ml_suggestions = 2 \<and>
    (\<forall>m \<in> set example_ml_suggestions. m_job_name m \<in> j_job_name ` set example_jobs) \<and>
    example_job ''customer_churn_training_3'' (124 / 10) \<in> set example_jobs \<and>
    j_job_name (example_job ''customer_churn_training_3'' (124 / 10)) \<notin> m_job_name ` set example_ml_suggestions"
    by code_simp
  have n1: "b_name (example_bucket ''archive-3003'' 80 ''ARCHIVE'') = ''archive-3003''"
    by (simp add: example_bucket_def)
  have n2: "j_job_name (example_job ''customer_churn_training_3'' (124 / 10)) = ''customer_churn_training_3''"
    by (simp add: example_job_def)
  show ?thesis
    using one_result_per_matched_suggestion [of example_buckets example_suggestions example_jobs example_ml_suggestions
                 "example_bucket ''archive-3003'' 80 ''ARCHIVE''"
                 "example_job ''customer_churn_training_3'' (124 / 10)"]
          h1 h2 n1 n2
    by simp
qed

section \<open>Generated bucket metadata\<close>


lemma choice_in:
  assumes "source_ok rs" "xs \<noteq> []"
  shows "fst (choice rs xs s) \<in> set xs"
proof -
  have "fst (rs_randbelow rs (length xs) s) < length xs"
    using assms by (simp add: source_ok_def)
  then show ?thesis
    by (simp add: choice_def split_beta)
qed

lemma randint_range:
  assumes "source_ok rs" "a \<le> b"
  shows "a \<le> fst (randint rs a b s) \<and> fst (randint rs a b s) \<le> b"
proof -
  have "fst (rs_randbelow rs (nat (b - a + 1)) s) < nat (b - a + 1)"
    using assms by (simp add: source_ok_def)
  then show ?thesis
    by (simp add: randint_def split_beta)
qed

lemma uniform_lower:
  assumes "source_ok rs" "a \<le> b"
  shows "a \<le> fst (uniform rs a b s)"
proof -
  have "0 \<le> fst (rs_random rs s)"
    using assms by (simp add: source_ok_def)
  then have "0 \<le> (b - a) * fst (rs_random rs s)"
    using assms by simp
  then show ?thesis
    by (simp add: uniform_def split_beta)
qed

lemma round_half_even_ge_floor: "\<lfloor>y\<rfloor> \<le> round_half_even y"
  by (simp add: round_half_even_def Let_def)

lemma py_round_ge_one:
  assumes "1 \<le> x"
  shows "1 \<le> py_round x 2"
proof -
  have "(100 :: rat) \<le> x * 100" using assms by simp
  then have "100 \<le> \<lfloor>x * 100\<rfloor>" by (simp add: le_floor_iff)
  then have "100 \<le> round_half_even (x * 100)"
    using round_half_even_ge_floor [of "x * 100"] by linarith
  then have "(100 :: rat) \<le> of_int (round_half_even (x * 100))"
    by (metis of_int_le_iff of_int_numeral)
  then show ?thesis
    by (simp add: py_round_def)
qed


lemma timedelta_days_mono: "a \<le> b \<Longrightarrow> timedelta_days a \<le> timedelta_days b"
  by (simp add: timedelta_days_def)

lemma timedelta_days_less: "timedelta_days a \<le> timedelta_days b \<Longrightarrow> a \<le> b"
  by (simp add: timedelta_days_def)

lemma generate_bucket_ok:
  assumes ok: "source_ok rs"
  shows "bucket_ok now (fst (generate_bucket rs now s))"
proof -
  obtain prefix s1 where d1: "choice rs BUCKET_PREFIXES s = (prefix, s1)"
    by fastforce
  obtain suffix s2 where d2: "randint rs 1000 9999 s1 = (suffix, s2)"
    by fastforce
  obtain size_distribution s3 where d3: "rs_random rs s2 = (size_distribution, s3)"
    by fastforce
  obtain size s4 where d4:
    "(if size_distribution < 5 / 10 then uniform rs 1 100 s3
      else if size_distribution < 8 / 10 then uniform rs 100 1000 s3
      else uniform rs 1000 10000 s3) = (size, s4)"
    by fastforce
  obtain days_ago s5 where d5: "randint rs 1 365 s4 = (days_ago, s5)"
    by fastforce
  obtain storage_class s6 where d6:
    "(if days_ago < 30 then choice rs [''STANDARD'', ''NEARLINE''] s5
      else if days_ago < 90 then choice rs [''STANDARD'', ''NEARLINE'', ''COLDLINE''] s5
      else choice rs [''NEARLINE'', ''COLDLINE'', ''ARCHIVE''] s5) = (storage_class, s6)"
    by fastforce
  obtain region s7 where d7: "choice rs REGIONS s6 = (region, s7)"
    by fastforce
  have gen: "fst (generate_bucket rs now s) =
      \<lparr>b_name = prefix @ ''-'' @ str_int suffix,
       b_size_gb = py_round size 2,
       b_last_accessed = now - timedelta_days days_ago,
       b_region = region,
       b_storage_class = storage_class\<rparr>"
    unfolding generate_bucket_def
    by (simp only: d1 d2 d3 d4 d5 d6 d7 Let_def prod.case fst_conv)
  have size: "1 \<le> size"
  proof -
    have "1 \<le> fst (uniform rs 1 100 s3)" "1 \<le> fst (uniform rs 100 1000 s3)"
      "1 \<le> fst (uniform rs 1000 10000 s3)"
      using uniform_lower [OF ok, of 1 100 s3] uniform_lower [OF ok, of 100 1000 s3]
        uniform_lower [OF ok, of 1000 10000 s3]
      by simp_all
    then show ?thesis
      using d4 by (auto split: if_splits)
  qed
  have days: "1 \<le> days_ago \<and> days_ago \<le> 365"
    using randint_range [OF ok, of 1 365 s4] d5 by simp
  have cls: "storage_class \<in> set STORAGE_CLASSES \<and> (90 \<le> days_ago \<longrightarrow> storage_class \<noteq> ''STANDARD'')"
  proof -
    have c1: "fst (choice rs [''STANDARD'', ''NEARLINE''] s5) \<in> set [''STANDARD'', ''NEARLINE'']"
      by (rule choice_in [OF ok]) simp
    have c2: "fst (choice rs [''STANDARD'', ''NEARLINE'', ''COLDLINE''] s5)
                \<in> set [''STANDARD'', ''NEARLINE'', ''COLDLINE'']"
      by (rule choice_in [OF ok]) simp
    have c3: "fst (choice rs [''NEARLINE'', ''COLDLINE'', ''ARCHIVE''] s5)
                \<in> set [''NEARLINE'', ''COLDLINE'', ''ARCHIVE'']"
      by (rule choice_in [OF ok]) simp
    show ?thesis
    proof (cases "days_ago < 30")
      case True
      then have "storage_class = fst (choice rs [''STANDARD'', ''NEARLINE''] s5)"
        using d6 by simp
      then show ?thesis using c1 True by (auto simp: STORAGE_CLASSES_def)
    next
      case False
      show ?thesis
      proof (cases "days_ago < 90")
        case True
        then have "storage_class = fst (choice rs [''STANDARD'', ''NEARLINE'', ''COLDLINE''] s5)"
          using d6 False by simp
        then show ?thesis using c2 True by (auto simp: STORAGE_CLASSES_def)
      next
        case ge: False
        then have "storage_class = fst (choice rs [''NEARLINE'', ''COLDLINE'', ''ARCHIVE''] s5)"
          using d6 False by simp
        then show ?thesis using c3 by (auto simp: STORAGE_CLASSES_def)
      qed
    qed
  qed
  have "0 < py_round size 2"
    using py_round_ge_one [OF size] by linarith
  moreover have "now - timedelta_days days_ago \<le> now - timedelta_days 1"
    using days timedelta_days_mono [of 1 days_ago] by simp
  moreover have "timedelta_days 90 \<le> now - (now - timedelta_days days_ago) \<longrightarrow> 90 \<le> days_ago"
    using timedelta_days_less [of 90 days_ago] by simp
  ultimately show ?thesis
    using cls by (simp add: bucket_ok_def gen)
qed

lemma generate_loop_ok:
  assumes ok: "source_ok rs"
  shows "length (generate_loop rs clock i k s) = k \<and>
         (\<forall>n < k. bucket_ok (clock (i + n)) (generate_loop rs clock i k s ! n))"
proof (induction k arbitrary: i s)
  case 0
  show ?case by simp
next
  case (Suc k)
  obtain b s' where g: "generate_bucket rs (clock i) s = (b, s')"
    by fastforce
  have b: "bucket_ok (clock i) b"
    using generate_bucket_ok [OF ok, of "clock i" s] g by simp
  have step: "generate_loop rs clock i (Suc k) s = b # generate_loop rs clock (Suc i) k s'"
    by (simp add: g)
  have ih: "length (generate_loop rs clock (Suc i) k s') = k"
    "\<And>n. n < k \<Longrightarrow> bucket_ok (clock (Suc i + n)) (generate_loop rs clock (Suc i) k s' ! n)"
    using Suc.IH [of "Suc i" s'] by simp_all
  show ?case
  proof (intro conjI allI impI)
    show "length (generate_loop rs clock i (Suc k) s) = Suc k"
      using step ih(1) by simp
  next
    fix n assume n: "n < Suc k"
    show "bucket_ok (clock (i + n)) (generate_loop rs clock i (Suc k) s ! n)"
    proof (cases n)
      case 0
      then show ?thesis using step b by simp
    next
      case (Suc m)
      then have "m < k" using n by simp
      then show ?thesis using step Suc ih(2) [of m] by simp
    qed
  qed
qed

text \<open>
  C9. With a random source that keeps the library's contract and a count of
  at least 0, \<open>generate_bucket_metadata\<close> returns exactly \<open>count\<close> records.
  In each of them \<open>size_gb\<close> is positive, \<open>last_accessed\<close> lies at least one
  day before the clock reading of the pass that made the record, and
  \<open>storage_class\<close> is one of STANDARD, NEARLINE, COLDLINE, ARCHIVE; a record
  whose \<open>last_accessed\<close> is 90 days or more before that reading is never
  STANDARD.
\<close>

theorem generated_buckets_well_formed:
  assumes "source_ok rs" and "0 \<le> cnt"
  shows "int (length (generate_bucket_metadata rs clock cnt s)) = cnt \<and>
         (\<forall>n < length (generate_bucket_metadata rs clock cnt s).
            0 < b_size_gb (generate_bucket_metadata rs clock cnt s ! n) \<and>
            b_last_accessed (generate_bucket_metadata rs clock cnt s ! n) \<le> clock n - timedelta_days 1 \<and>
            b_storage_class (generate_bucket_metadata rs clock cnt s ! n) \<in> set STORAGE_CLASSES \<and>
            (timedelta_days 90 \<le> clock n - b_last_accessed (generate_bucket_metadata rs clock cnt s ! n) \<longrightarrow>
               b_storage_class (generate_bucket_metadata rs clock cnt s ! n) \<noteq> ''STANDARD''))"
proof -
  have l: "length (generate_bucket_metadata rs clock cnt s) = nat cnt"
    and p: "\<And>n. n < nat cnt \<Longrightarrow> bucket_ok (clock n) (generate_bucket_metadata rs clock cnt s ! n)"
    using generate_loop_ok [OF assms(1), of clock 0 "nat cnt" s]
    by (simp_all add: generate_bucket_metadata_def)
  show ?thesis
    using l p assms(2) by (simp add: bucket_ok_def)
qed



theorem generated_buckets_well_formed_witness:
  "int (length (generate_bucket_metadata counter_source ticking_clock 3 0)) = 3 \<and>
   0 < b_size_gb (generate_bucket_metadata counter_source ticking_clock 3 0 ! 2) \<and>
   b_last_accessed (generate_bucket_metadata counter_source ticking_clock 3 0 ! 2)
     \<le> ticking_clock 2 - timedelta_days 1 \<and>
   b_storage_class (generate_bucket_metadata counter_source ticking_clock 3 0 ! 2)
     \<in> set STORAGE_CLASSES \<and>
   timedelta_days 90
     \<le> ticking_clock 2 - b_last_accessed (generate_bucket_metadata counter_source ticking_clock 3 0 ! 2) \<and>
   b_storage_class (generate_bucket_metadata counter_source ticking_clock 3 0 ! 2) \<noteq> ''STANDARD''"
proof -
  let ?L = "generate_bucket_metadata counter_source ticking_clock 3 0"
  have ok: "source_ok counter_source"
    by (simp add: source_ok_def counter_source_def)
  have nonneg: "(0 :: int) \<le> 3" by simp
  have old: "timedelta_days 90 \<le> ticking_clock 2 - b_last_accessed (?L ! 2)"
    by code_simp
  note t = generated_buckets_well_formed [OF ok nonneg, of ticking_clock 0]
  from t have len: "length ?L = 3" by simp
  from t have "\<forall>n < length ?L.
            0 < b_size_gb (?L ! n) \<and>
            b_last_accessed (?L ! n) \<le> ticking_clock n - timedelta_days 1 \<and>
            b_storage_class (?L ! n) \<in> set STORAGE_CLASSES \<and>
            (timedelta_days 90 \<le> ticking_clock n - b_last_accessed (?L ! n) \<longrightarrow>
               b_storage_class (?L ! n) \<noteq> ''STANDARD'')"
    by blast
  then have "0 < b_size_gb (?L ! 2) \<and>
            b_last_accessed (?L ! 2) \<le> ticking_clock 2 - timedelta_days 1 \<and>
            b_storage_class (?L ! 2) \<in> set STORAGE_CLASSES \<and>
            (timedelta_days 90 \<le> ticking_clock 2 - b_last_accessed (?L ! 2) \<longrightarrow>
               b_storage_class (?L ! 2) \<noteq> ''STANDARD'')"
    using len by (elim allE [of _ 2]) simp
  then show ?thesis
    using len old by simp
qed

end
